theory Spec2Isabelle
  imports Complex_Main "HOL-Library.Sublist" "HOL-Library.Multiset"
begin

section \<open>Time values\<close>

text \<open>
  A Python \<open>datetime\<close> is a point on a linear axis with microsecond resolution. It is
  embedded as the number of microseconds since 0001-01-01 00:00:00, so comparison is the
  order of \<open>int\<close> and adding a \<open>timedelta\<close> is addition.
\<close>

type_synonym datetime = int

definition us_per_second :: int where
  "us_per_second = 1000000"

definition us_per_minute :: int where
  "us_per_minute = 60000000"

definition us_per_hour :: int where
  "us_per_hour = 3600000000"

definition us_per_day :: int where
  "us_per_day = 86400000000"

text \<open>\<open>timedelta(minutes=k)\<close>.\<close>

definition timedelta_minutes :: "int \<Rightarrow> int" where
  "timedelta_minutes k = k * us_per_minute"

text \<open>
  The civil calendar. \<open>days_from_civil y m d\<close> is \<open>date(y, m, d).toordinal() - 1\<close>,
  the number of days since 0001-01-01 in the proleptic Gregorian calendar, and
  \<open>civil_from_days\<close> is its inverse.
\<close>

definition days_from_civil :: "int \<Rightarrow> int \<Rightarrow> int \<Rightarrow> int" where
  "days_from_civil y m d =
     (let y' = (if m \<le> 2 then y - 1 else y);
          era = y' div 400;
          yoe = y' mod 400;
          doy = (153 * (if 2 < m then m - 3 else m + 9) + 2) div 5 + d - 1;
          doe = yoe * 365 + yoe div 4 - yoe div 100 + doy
      in era * 146097 + doe - 306)"

definition civil_from_days :: "int \<Rightarrow> int \<times> int \<times> int" where
  "civil_from_days n =
     (let z = n + 306;
          era = z div 146097;
          doe = z mod 146097;
          yoe = (doe - doe div 1460 + doe div 36524 - doe div 146096) div 365;
          doy = doe - (365 * yoe + yoe div 4 - yoe div 100);
          mp = (5 * doy + 2) div 153;
          d = doy - (153 * mp + 2) div 5 + 1;
          m = (if mp < 10 then mp + 3 else mp - 9);
          y = yoe + era * 400
      in ((if m \<le> 2 then y + 1 else y), m, d))"

text \<open>\<open>datetime(y, m, d, hh, mm)\<close>.\<close>

definition datetime_of :: "int \<Rightarrow> int \<Rightarrow> int \<Rightarrow> int \<Rightarrow> int \<Rightarrow> datetime" where
  "datetime_of y m d hh mm =
     days_from_civil y m d * us_per_day + hh * us_per_hour + mm * us_per_minute"

text \<open>
  \<open>dt.date()\<close> as a day number, \<open>dt.time()\<close> as the microseconds since midnight,
  and the fields \<open>hour\<close>, \<open>minute\<close> of a clock time.
\<close>

type_synonym date = int

type_synonym clock = int

definition date_of :: "datetime \<Rightarrow> date" where
  "date_of dt = dt div us_per_day"

definition time_of :: "datetime \<Rightarrow> clock" where
  "time_of dt = dt mod us_per_day"

definition hour :: "clock \<Rightarrow> int" where
  "hour t = t div us_per_hour"

definition minute :: "clock \<Rightarrow> int" where
  "minute t = (t mod us_per_hour) div us_per_minute"

text \<open>\<open>time(hh, mm)\<close> and \<open>datetime.combine(d, t)\<close>.\<close>

definition clock_of :: "int \<Rightarrow> int \<Rightarrow> clock" where
  "clock_of hh mm = hh * us_per_hour + mm * us_per_minute"

definition combine :: "date \<Rightarrow> clock \<Rightarrow> datetime" where
  "combine d t = d * us_per_day + t"

section \<open>Strings\<close>

text \<open>
  The operations of Python's \<open>str\<close> that the program uses, on \<open>string\<close>. The
  utterances are ASCII text.
\<close>

text \<open>\<open>sub in text\<close>: \<open>sub\<close> occurs in \<open>text\<close> as a contiguous substring.\<close>

fun py_in :: "string \<Rightarrow> string \<Rightarrow> bool" where
  "py_in sub [] = (sub = [])"
| "py_in sub (c # cs) = (prefix sub (c # cs) \<or> py_in sub cs)"

text \<open>
  \<open>text.split(sep)\<close> for a non-empty separator: the pieces between the occurrences of
  \<open>sep\<close>, found from the left without overlap. \<open>skip\<close> counts the characters of an
  occurrence still to be passed over, \<open>cur\<close> holds the current piece, reversed.
\<close>

fun split_from :: "string \<Rightarrow> nat \<Rightarrow> string \<Rightarrow> string \<Rightarrow> string list" where
  "split_from sep skip cur [] = [rev cur]"
| "split_from sep skip cur (c # cs) =
     (if 0 < skip then split_from sep (skip - 1) cur cs
      else if prefix sep (c # cs) then rev cur # split_from sep (length sep - 1) [] cs
      else split_from sep 0 (c # cur) cs)"

definition split_sep :: "string \<Rightarrow> string \<Rightarrow> string list" where
  "split_sep text sep = split_from sep 0 [] text"

definition is_space :: "char \<Rightarrow> bool" where
  "is_space c \<longleftrightarrow> c \<in> set [CHR '' '', CHR 0x09, CHR 0x0A, CHR 0x0B, CHR 0x0C, CHR 0x0D]"

text \<open>\<open>text.split()\<close>: the maximal runs of non-blank characters.\<close>

fun words_from :: "string \<Rightarrow> string \<Rightarrow> string list" where
  "words_from cur [] = (if cur = [] then [] else [rev cur])"
| "words_from cur (c # cs) =
     (if is_space c then (if cur = [] then [] else [rev cur]) @ words_from [] cs
      else words_from (c # cur) cs)"

definition split_ws :: "string \<Rightarrow> string list" where
  "split_ws text = words_from [] text"

text \<open>\<open>text.strip()\<close>.\<close>

definition strip :: "string \<Rightarrow> string" where
  "strip text = rev (dropWhile is_space (rev (dropWhile is_space text)))"

text \<open>\<open>text.lower()\<close> on ASCII letters.\<close>

definition lower_char :: "char \<Rightarrow> char" where
  "lower_char c =
     (case map_of (zip ''ABCDEFGHIJKLMNOPQRSTUVWXYZ'' ''abcdefghijklmnopqrstuvwxyz'') c of
        Some l \<Rightarrow> l
      | None \<Rightarrow> c)"

definition lower :: "string \<Rightarrow> string" where
  "lower text = map lower_char text"

text \<open>Indexing a list as Python does for a non-negative index: out of range raises.\<close>

datatype exn =
  ZeroDivisionError | TypeError | AttributeError | IndexError | ValueError | StoreError

definition item :: "'a list \<Rightarrow> nat \<Rightarrow> exn + 'a" where
  "item xs i = (if i < length xs then Inr (xs ! i) else Inl IndexError)"

section \<open>Conflict resolution: \<open>handle_conflicts\<close> and \<open>_check_overlap\<close>\<close>

text \<open>
  Every dictionary and row of the program that carries the keys \<open>start_time\<close> and
  \<open>end_time\<close> extends the record \<open>interval\<close>. A candidate appointment is a
  dictionary read at the keys \<open>priority\<close>, \<open>start_time\<close> and \<open>end_time\<close>;
  \<open>tag\<close> stands for whatever else the dictionary carries, so that two candidates
  with equal times and priority can differ.
\<close>

record interval =
  start_time :: datetime
  end_time :: datetime

record appt = interval +
  priority :: int
  tag :: nat

definition check_overlap :: "appt \<Rightarrow> appt \<Rightarrow> bool" where
  "check_overlap appt1 appt2 \<longleftrightarrow>
     start_time appt1 < end_time appt2 \<and> start_time appt2 < end_time appt1"

text \<open>
  \<open>sorted(xs, key=k, reverse=True)\<close> is a stable sort into descending key order:
  elements with equal keys keep their input order. Inserting from the right, each
  element goes in front of the first element whose key is not larger than its own.
\<close>

fun insort_desc :: "('a \<Rightarrow> 'k::linorder) \<Rightarrow> 'a \<Rightarrow> 'a list \<Rightarrow> 'a list" where
  "insort_desc k x [] = [x]"
| "insort_desc k x (y # ys) = (if k y \<le> k x then x # y # ys else y # insort_desc k x ys)"

definition sorted_desc :: "('a \<Rightarrow> 'k::linorder) \<Rightarrow> 'a list \<Rightarrow> 'a list" where
  "sorted_desc k xs = foldr (insort_desc k) xs []"

text \<open>The inner loop: does \<open>appt\<close> overlap one of the already resolved ones.\<close>

fun has_conflict :: "appt \<Rightarrow> appt list \<Rightarrow> bool" where
  "has_conflict a [] = False"
| "has_conflict a (r # rs) = (if check_overlap a r then True else has_conflict a rs)"

text \<open>The outer loop, with \<open>resolved_appointments\<close> as the accumulator.\<close>

fun resolve_loop :: "appt list \<Rightarrow> appt list \<Rightarrow> appt list" where
  "resolve_loop resolved [] = resolved"
| "resolve_loop resolved (a # rest) =
     (if has_conflict a resolved then resolve_loop resolved rest
      else resolve_loop (resolved @ [a]) rest)"

definition handle_conflicts :: "appt list \<Rightarrow> appt list" where
  "handle_conflicts appointments = resolve_loop [] (sorted_desc priority appointments)"

text \<open>Pairwise non-overlap of a list, by position.\<close>

definition pairwise_free :: "appt list \<Rightarrow> bool" where
  "pairwise_free xs \<longleftrightarrow>
     (\<forall>i < length xs. \<forall>j < length xs. i \<noteq> j \<longrightarrow> \<not> check_overlap (xs ! i) (xs ! j))"

section \<open>Slot derivation: \<open>get_available_slots\<close>\<close>

text \<open>
  An entry of \<open>provider_schedule\<close> is read at \<open>start_time\<close>, \<open>end_time\<close> and
  \<open>is_available\<close>. A derived slot is a dictionary with the keys \<open>start_time\<close>,
  \<open>end_time\<close> and \<open>duration\<close>; the keys \<open>score\<close> and \<open>alternative_score\<close> are
  absent (\<open>None\<close>) until a ranking function stores them.
\<close>

record window = interval +
  is_available :: bool

record slot = interval +
  duration :: int
  score :: "rat option"
  alternative_score :: "rat option"

text \<open>
  \<open>timedelta.total_seconds()\<close> and the true divisions that follow it are taken as exact
  rational arithmetic; \<open>int(x)\<close> truncates towards zero.
\<close>

definition total_seconds :: "int \<Rightarrow> rat" where
  "total_seconds td = of_int td / of_int us_per_second"

definition py_int :: "rat \<Rightarrow> int" where
  "py_int x = (if 0 \<le> x then \<lfloor>x\<rfloor> else \<lceil>x\<rceil>)"

text \<open>The inner loop \<open>for i in range(num_possible_appointments)\<close>, over the indices.\<close>

fun appointment_slots :: "datetime \<Rightarrow> datetime \<Rightarrow> int \<Rightarrow> int list \<Rightarrow> slot list" where
  "appointment_slots slot_start slot_end duration_minutes [] = []"
| "appointment_slots slot_start slot_end duration_minutes (i # rest) =
     (let appointment_start = slot_start + timedelta_minutes (i * duration_minutes);
          appointment_end = appointment_start + timedelta_minutes duration_minutes
      in (if appointment_end \<le> slot_end
          then [\<lparr>start_time = appointment_start, end_time = appointment_end,
                 duration = duration_minutes, score = None, alternative_score = None\<rparr>]
          else [])
         @ appointment_slots slot_start slot_end duration_minutes rest)"

text \<open>
  The body of the outer loop for one schedule entry: what it appends to
  \<open>available_slots\<close>, or the exception of the division by a zero duration.
\<close>

definition window_slots :: "datetime \<Rightarrow> int \<Rightarrow> window \<Rightarrow> exn + slot list" where
  "window_slots current_time duration_minutes w =
     (if is_available w \<and> current_time < start_time w then
        (if duration_minutes = 0 then Inl ZeroDivisionError
         else
           let slot_duration = total_seconds (end_time w - start_time w) / 60;
               num_possible_appointments = py_int (slot_duration / of_int duration_minutes)
           in Inr (appointment_slots (start_time w) (end_time w) duration_minutes
                     [0 .. num_possible_appointments - 1]))
      else Inr [])"

fun get_available_slots_loop ::
  "datetime \<Rightarrow> int \<Rightarrow> window list \<Rightarrow> slot list \<Rightarrow> exn + slot list" where
  "get_available_slots_loop current_time duration_minutes [] available_slots =
     Inr available_slots"
| "get_available_slots_loop current_time duration_minutes (w # rest) available_slots =
     (case window_slots current_time duration_minutes w of
        Inl e \<Rightarrow> Inl e
      | Inr new \<Rightarrow>
          get_available_slots_loop current_time duration_minutes rest (available_slots @ new))"

text \<open>\<open>current_time\<close> is the value that \<open>datetime.now()\<close> returns at the call.\<close>

definition get_available_slots :: "datetime \<Rightarrow> window list \<Rightarrow> int \<Rightarrow> exn + slot list" where
  "get_available_slots current_time provider_schedule duration_minutes =
     get_available_slots_loop current_time duration_minutes provider_schedule []"

text \<open>The slot at offset \<open>i\<close> of a window that starts at \<open>s\<close>.\<close>

definition nth_slot :: "datetime \<Rightarrow> int \<Rightarrow> int \<Rightarrow> slot" where
  "nth_slot s d i =
     \<lparr>start_time = s + timedelta_minutes (i * d),
      end_time = s + timedelta_minutes (i * d) + timedelta_minutes d,
      duration = d, score = None, alternative_score = None\<rparr>"

text \<open>The length of a window in minutes, as a rational number.\<close>

definition window_minutes :: "window \<Rightarrow> rat" where
  "window_minutes w = of_int (end_time w - start_time w) / of_int us_per_minute"

section \<open>Ranking: \<open>rank_slots\<close> and \<open>suggest_alternative_slots\<close>\<close>

text \<open>
  \<open>user_preferences\<close> is read at the key \<open>preferred_time\<close> only, with \<open>.get\<close>: the
  key may be absent. Its value is read at \<open>.hour\<close> and \<open>.minute\<close>, a clock time, and
  such a value is always truthy.
\<close>

record preferences =
  preferred_time :: "clock option"

text \<open>
  The body of the scoring loop of \<open>rank_slots\<close>: the distance is in whole minutes of the
  clock, and the assignment \<open>slot['score'] = ...\<close> writes into the caller's dictionary.
\<close>

definition rank_time_diff :: "clock \<Rightarrow> slot \<Rightarrow> int" where
  "rank_time_diff pt s =
     \<bar>(hour (time_of (start_time s)) * 60 + minute (time_of (start_time s)))
        - (hour pt * 60 + minute pt)\<bar>"

definition set_score :: "clock \<Rightarrow> slot \<Rightarrow> slot" where
  "set_score pt s = s\<lparr>score := Some (1 / (1 + of_int (rank_time_diff pt s)))\<rparr>"

text \<open>The sort key \<open>x.get('score', 0)\<close>.\<close>

definition score_key :: "slot \<Rightarrow> rat" where
  "score_key x = (case score x of None \<Rightarrow> 0 | Some v \<Rightarrow> v)"

text \<open>
  \<open>rank_slots\<close> changes the dictionaries of its argument in place and returns a new,
  sorted list of the same dictionaries. The embedding returns both: first the argument
  list as the caller finds it after the call, then the returned list.
\<close>

definition rank_slots :: "slot list \<Rightarrow> preferences \<Rightarrow> slot list \<times> slot list" where
  "rank_slots available_slots user_preferences =
     (if available_slots = [] then ([], [])
      else
        let scored = (case preferred_time user_preferences of
                        Some pt \<Rightarrow> map (set_score pt) available_slots
                      | None \<Rightarrow> available_slots)
        in (scored, sorted_desc score_key scored))"

text \<open>
  \<open>suggest_alternative_slots\<close>: the distance to the requested start is in hours and
  spans dates; every dictionary of the argument receives the key \<open>alternative_score\<close>.
\<close>

definition alternative_time_diff :: "datetime \<Rightarrow> slot \<Rightarrow> rat" where
  "alternative_time_diff requested_time s =
     \<bar>total_seconds (start_time s - requested_time) / 3600\<bar>"

definition set_alternative_score :: "datetime \<Rightarrow> slot \<Rightarrow> slot" where
  "set_alternative_score requested_time s =
     s\<lparr>alternative_score := Some (1 / (1 + alternative_time_diff requested_time s))\<rparr>"

text \<open>
  The sort key \<open>x['alternative_score']\<close>; after the loop the key is present in every
  dictionary, so the \<open>None\<close> branch is never taken.
\<close>

definition alternative_key :: "slot \<Rightarrow> rat" where
  "alternative_key x = (case alternative_score x of None \<Rightarrow> 0 | Some v \<Rightarrow> v)"

definition suggest_alternative_slots ::
  "'a interval_scheme \<Rightarrow> slot list \<Rightarrow> slot list \<times> slot list" where
  "suggest_alternative_slots unavailable_slot available_slots =
     (let requested_time = start_time unavailable_slot;
          scored = map (set_alternative_score requested_time) available_slots
      in (scored, take 3 (sorted_desc alternative_key scored)))"

section \<open>The store\<close>

text \<open>
  The tables of \<open>database/models.py\<close> as lists of rows, in the order in which a query
  without \<open>ORDER BY\<close> returns them. \<open>TimeSlot\<close> extends \<open>window\<close> by its two
  integer columns; the column \<open>id\<close> of each table has the table's prefix, since \<open>id\<close> is
  the identity function of HOL.
\<close>

record time_slot = window +
  ts_id :: int
  provider_id :: int

record service_provider =
  sp_id :: int
  sp_name :: string
  service_type :: string

record user =
  u_id :: int
  u_name :: string
  u_email :: string

record appointment =
  a_id :: int
  a_user_id :: int
  a_provider_id :: int
  a_datetime :: datetime
  duration_minutes :: int
  status :: string

record database =
  users :: "user list"
  service_providers :: "service_provider list"
  time_slots :: "time_slot list"
  appointments :: "appointment list"

text \<open>
  \<open>SessionLocal\<close> is imported from \<open>database.database\<close>, which is not part of the
  sources at hand; it is taken as a parameter: opening a session either gives access to
  the tables or raises, and the exception then surfaces inside the \<open>try\<close> of the caller.
\<close>

type_synonym session = "exn + database"

text \<open>
  What \<open>print\<close> writes in an exception handler: the fixed text and the exception. A
  message built as \<open>f"...{str(e)}"\<close> is kept in the same two parts.
\<close>

datatype log_line = Log string exn

datatype message = Msg string | MsgExn string exn

section \<open>Suggestion: \<open>find_optimal_slot\<close>, \<open>find_alternative_slots\<close>, \<open>suggest_slots\<close>\<close>

text \<open>
  The dictionaries that the two searches return: \<open>slot_id\<close>, \<open>provider_id\<close> (here
  \<open>for_provider\<close>, the column of \<open>time_slot\<close> has the name), \<open>start_time\<close>,
  \<open>end_time\<close>, and for the optimal slot its \<open>score\<close> (here \<open>best_score\<close>, always
  present, unlike the key of \<open>slot\<close>).
\<close>

record slot_ref = interval +
  slot_id :: int
  for_provider :: int

record optimal = slot_ref +
  best_score :: rat

text \<open>
  Lines 114 to 118 build the query with the condition
  \<open>TimeSlot.start_time.date() == preferred_date\<close>. \<open>TimeSlot.start_time\<close> is the
  mapped column of the class (\<open>models.py\<close>, line 34), not a \<open>datetime\<close> value, and
  has no attribute \<open>date\<close>: the expression raises \<open>AttributeError\<close> while the
  arguments of \<open>filter\<close> are evaluated, before the query reaches the store and before
  any row is read.
\<close>

definition slots_of_day :: "database \<Rightarrow> int \<Rightarrow> date \<Rightarrow> exn + time_slot list" where
  "slots_of_day db pid preferred_date = Inl AttributeError"

text \<open>
  Line 125, were it reached, builds the dictionary \<open>time_ranges\<close> with
  \<open>datetime.time(9, 0)\<close>. The module imports the class
  (\<open>from datetime import datetime\<close>, line 3), so \<open>datetime.time\<close> is the instance
  method \<open>datetime.datetime.time\<close>, and calling it with the integer 9 in the place of
  \<open>self\<close> raises \<open>TypeError\<close>.
\<close>

definition time_ranges :: "exn + (string \<times> clock \<times> clock) list" where
  "time_ranges = Inl TypeError"

text \<open>
  \<open>datetime.strptime\<close> for the two formats of lines 135 and 138. \<open>%I %p\<close> accepts an
  hour from 1 to 12 in one or two digits, blanks, and \<open>am\<close> or \<open>pm\<close> in either case;
  \<open>%H:%M\<close> accepts an hour up to 23 and a minute up to 59, each in one or two digits.
  Anything else, also a blank in front or behind, raises \<open>ValueError\<close>.
\<close>

definition is_digit :: "char \<Rightarrow> bool" where
  "is_digit c \<longleftrightarrow> c \<in> set ''0123456789''"

definition digit_value :: "char \<Rightarrow> int" where
  "digit_value c = (case map_of (zip ''0123456789'' [0, 1, 2, 3, 4, 5, 6, 7, 8, 9]) c of
                      Some v \<Rightarrow> v | None \<Rightarrow> 0)"

definition number :: "string \<Rightarrow> int option" where
  "number s = (if s \<noteq> [] \<and> length s \<le> 2 \<and> list_all is_digit s
               then Some (foldl (\<lambda>a c. 10 * a + digit_value c) 0 s) else None)"

definition strptime_I_p :: "string \<Rightarrow> exn + clock" where
  "strptime_I_p s =
     (let h = takeWhile is_digit s;
          rest = dropWhile is_digit s;
          blanks = takeWhile is_space rest;
          p = lower (dropWhile is_space rest)
      in case number h of
           None \<Rightarrow> Inl ValueError
         | Some i \<Rightarrow>
             if 1 \<le> i \<and> i \<le> 12 \<and> blanks \<noteq> [] \<and> (p = ''am'' \<or> p = ''pm'')
             then Inr (clock_of (i mod 12 + (if p = ''pm'' then 12 else 0)) 0)
             else Inl ValueError)"

definition strptime_H_M :: "string \<Rightarrow> exn + clock" where
  "strptime_H_M s =
     (case split_sep s '':'' of
        [h, m] \<Rightarrow>
          (case (number h, number m) of
             (Some hh, Some mm) \<Rightarrow>
               if hh \<le> 23 \<and> mm \<le> 59 then Inr (clock_of hh mm) else Inl ValueError
           | _ \<Rightarrow> Inl ValueError)
      | _ \<Rightarrow> Inl ValueError)"

text \<open>Lines 131 to 141: a failed parse leaves \<open>specific_time\<close> at \<open>None\<close>.\<close>

definition parse_specific_time :: "string \<Rightarrow> clock option" where
  "parse_specific_time preferred_time_str =
     (let parsed =
            (if py_in ''am'' (lower preferred_time_str) \<or> py_in ''pm'' (lower preferred_time_str)
             then strptime_I_p (filter (\<lambda>c. c \<noteq> CHR ''('' \<and> c \<noteq> CHR '')'') preferred_time_str)
             else strptime_H_M preferred_time_str)
      in case parsed of Inl e \<Rightarrow> None | Inr t \<Rightarrow> Some t)"

text \<open>
  The band branch of the scoring loop, lines 157 to 166: the first band whose name occurs
  in the preference decides, with both ends of the band included; without such a band,
  or outside it, the score is the baseline.
\<close>

definition band_score :: "(string \<times> clock \<times> clock) list \<Rightarrow> string \<Rightarrow> clock \<Rightarrow> rat" where
  "band_score ranges preferred_time_str slot_time =
     (case find (\<lambda>(range_name, start, end). py_in (lower range_name) (lower preferred_time_str))
             ranges of
        Some (range_name, start, end) \<Rightarrow>
          if start \<le> slot_time \<and> slot_time \<le> end then 1 else 1 / 2
      | None \<Rightarrow> 1 / 2)"

text \<open>
  The score of one slot, lines 146 to 166. With a specific time, line 152 evaluates
  \<open>datetime.date.today()\<close>; \<open>datetime.date\<close> is again a method of the class and has
  no attribute \<open>today\<close>, so the branch raises \<open>AttributeError\<close>.
\<close>

definition slot_score ::
  "(string \<times> clock \<times> clock) list \<Rightarrow> clock option \<Rightarrow> string \<Rightarrow> time_slot \<Rightarrow> exn + rat" where
  "slot_score ranges specific_time preferred_time_str s =
     (case specific_time of
        Some t \<Rightarrow> Inl AttributeError
      | None \<Rightarrow> Inr (band_score ranges preferred_time_str (time_of (start_time s))))"

text \<open>The loop over the slots: the first exception ends it.\<close>

fun score_slots ::
  "(string \<times> clock \<times> clock) list \<Rightarrow> clock option \<Rightarrow> string \<Rightarrow> time_slot list
     \<Rightarrow> exn + (time_slot \<times> rat) list" where
  "score_slots ranges specific_time preferred_time_str [] = Inr []"
| "score_slots ranges specific_time preferred_time_str (s # rest) =
     (case slot_score ranges specific_time preferred_time_str s of
        Inl e \<Rightarrow> Inl e
      | Inr v \<Rightarrow>
          (case score_slots ranges specific_time preferred_time_str rest of
             Inl e \<Rightarrow> Inl e
           | Inr scored \<Rightarrow> Inr ((s, v) # scored)))"

text \<open>Lines 171 to 182: the first slot of the stable descending sort by score.\<close>

definition best_of :: "int \<Rightarrow> (time_slot \<times> rat) list \<Rightarrow> optimal option" where
  "best_of pid scored_slots =
     (case sorted_desc snd scored_slots of
        [] \<Rightarrow> None
      | (best_slot, v) # rest \<Rightarrow>
          Some \<lparr>start_time = start_time best_slot, end_time = end_time best_slot,
                slot_id = ts_id best_slot, for_provider = pid, best_score = v\<rparr>)"

text \<open>
  \<open>find_optimal_slot\<close>, with what it prints. It opens a session of its own. Every
  exception of the body is caught by the handler of line 184, which prints it and
  returns \<open>None\<close>; the first one is that of the query.
\<close>

definition find_optimal_slot ::
  "session \<Rightarrow> int \<Rightarrow> date \<Rightarrow> string \<Rightarrow> optimal option \<times> log_line list" where
  "find_optimal_slot session pid preferred_date preferred_time_str =
     (case session of
        Inl e \<Rightarrow> (None, [Log ''Error finding optimal slot'' e])
      | Inr db \<Rightarrow>
          (case slots_of_day db pid preferred_date of
             Inl e \<Rightarrow> (None, [Log ''Error finding optimal slot'' e])
           | Inr slots \<Rightarrow>
               if slots = [] then (None, [])
               else (case time_ranges of
                       Inl e \<Rightarrow> (None, [Log ''Error finding optimal slot'' e])
                     | Inr ranges \<Rightarrow>
                         (case score_slots ranges (parse_specific_time preferred_time_str)
                                 preferred_time_str slots of
                            Inl e \<Rightarrow> (None, [Log ''Error finding optimal slot'' e])
                          | Inr scored_slots \<Rightarrow> (best_of pid scored_slots, [])))))"

text \<open>
  The loop of \<open>find_alternative_slots\<close>: append, and stop as soon as five are
  collected.
\<close>

definition as_alternative :: "int \<Rightarrow> time_slot \<Rightarrow> slot_ref" where
  "as_alternative pid s =
     \<lparr>start_time = start_time s, end_time = end_time s, slot_id = ts_id s, for_provider = pid\<rparr>"

fun collect_alternatives :: "int \<Rightarrow> slot_ref list \<Rightarrow> time_slot list \<Rightarrow> slot_ref list" where
  "collect_alternatives pid alternative_slots [] = alternative_slots"
| "collect_alternatives pid alternative_slots (s # rest) =
     (let alternative_slots' = alternative_slots @ [as_alternative pid s]
      in if 5 \<le> length alternative_slots' then alternative_slots'
         else collect_alternatives pid alternative_slots' rest)"

text \<open>\<open>datetime.min.time()\<close> is 00:00:00 and \<open>datetime.max.time()\<close> is 23:59:59.999999.\<close>

definition min_time :: clock where
  "min_time = 0"

definition max_time :: clock where
  "max_time = us_per_day - 1"

text \<open>
  The rows that the query of \<open>find_alternative_slots\<close> selects, and the query itself
  with its \<open>ORDER BY start_time\<close>, as a stable ascending sort. Its conditions compare
  columns with values and are those of the store. The function opens a session of its
  own; its argument \<open>preferred_time\<close> is not used by it.
\<close>

definition in_window :: "int \<Rightarrow> date \<Rightarrow> int \<Rightarrow> time_slot \<Rightarrow> bool" where
  "in_window pid start_date window_days s \<longleftrightarrow>
     provider_id s = pid
     \<and> combine start_date min_time \<le> start_time s
     \<and> start_time s \<le> combine (start_date + window_days) max_time
     \<and> is_available s"

definition window_query :: "database \<Rightarrow> int \<Rightarrow> date \<Rightarrow> int \<Rightarrow> time_slot list" where
  "window_query db pid start_date window_days =
     sort_key start_time (filter (in_window pid start_date window_days) (time_slots db))"

definition find_alternative_slots ::
  "session \<Rightarrow> int \<Rightarrow> date \<Rightarrow> int \<Rightarrow> slot_ref list \<times> log_line list" where
  "find_alternative_slots session pid preferred_date window_days =
     (case session of
        Inl e \<Rightarrow> ([], [Log ''Error finding alternative slots'' e])
      | Inr db \<Rightarrow>
          (collect_alternatives pid [] (window_query db pid preferred_date window_days), []))"

text \<open>The result dictionary of \<open>suggest_slots\<close>; a key that is not set is \<open>None\<close>.\<close>

record reply =
  message :: message

record suggestion = reply +
  available :: bool
  slot :: "optimal option"
  alternative_slots :: "slot_ref list option"

definition found_message :: message where
  "found_message = Msg ''Found an available slot!''"

definition preferred_time_message :: message where
  "preferred_time_message = Msg ''Sorry, no available slots found for your preferred time.''"

definition none_found_message :: message where
  "none_found_message =
     Msg ''Sorry, no available slots found. Please try a different date or provider.''"

definition error_message :: message where
  "error_message = Msg ''An error occurred while searching for slots.''"

text \<open>
  \<open>suggest_slots\<close>, with what is printed during the call. Each of the two searches
  calls \<open>SessionLocal()\<close> for itself: \<open>optimal_session\<close> is the outcome of the
  call in \<open>find_optimal_slot\<close>, \<open>alternative_session\<close> that of the call in
  \<open>find_alternative_slots\<close>. Both searches catch every exception themselves and the
  other statements of the \<open>try\<close> block cannot raise, so the handler of line 331, which
  returns \<open>error_message\<close>, is never entered.
\<close>

definition suggest_fallback ::
  "session \<Rightarrow> int \<Rightarrow> date \<Rightarrow> log_line list \<Rightarrow> suggestion \<times> log_line list" where
  "suggest_fallback alternative_session pid preferred_date printed =
     (let (alternatives, printed') =
            find_alternative_slots alternative_session pid preferred_date 7
      in if alternatives \<noteq> []
         then (\<lparr>message = preferred_time_message, available = False, slot = None,
                 alternative_slots = Some alternatives\<rparr>, printed @ printed')
         else (\<lparr>message = none_found_message, available = False, slot = None,
                 alternative_slots = Some []\<rparr>, printed @ printed'))"

text \<open>
  Lines 304 to 329, for the optimal slot that line 302 obtained and what was printed
  up to there.
\<close>

definition suggest_with ::
  "optimal option \<Rightarrow> log_line list \<Rightarrow> session \<Rightarrow> int \<Rightarrow> date \<Rightarrow> suggestion \<times> log_line list"
  where
  "suggest_with optimal_slot printed alternative_session pid preferred_date =
     (case optimal_slot of
        Some found \<Rightarrow>
          if 4 / 5 < best_score found
          then (\<lparr>message = found_message, available = True, slot = Some found,
                  alternative_slots = None\<rparr>, printed)
          else suggest_fallback alternative_session pid preferred_date printed
      | None \<Rightarrow> suggest_fallback alternative_session pid preferred_date printed)"

definition suggest_slots ::
  "session \<Rightarrow> session \<Rightarrow> int \<Rightarrow> date \<Rightarrow> string \<Rightarrow> suggestion \<times> log_line list" where
  "suggest_slots optimal_session alternative_session pid preferred_date preferred_time_str =
     (let (optimal_slot, printed) =
            find_optimal_slot optimal_session pid preferred_date preferred_time_str
      in suggest_with optimal_slot printed alternative_session pid preferred_date)"

section \<open>Booking: \<open>book_appointment\<close>\<close>

text \<open>
  \<open>strftime('%Y-%m-%d')\<close> and \<open>strftime('%I:%M %p')\<close>, for years of four digits and
  the C locale.
\<close>

definition digit :: "int \<Rightarrow> char" where
  "digit n = ''0123456789'' ! nat n"

definition two_digits :: "int \<Rightarrow> string" where
  "two_digits n = [digit (n div 10 mod 10), digit (n mod 10)]"

definition four_digits :: "int \<Rightarrow> string" where
  "four_digits n = two_digits (n div 100) @ two_digits (n mod 100)"

definition strftime_date :: "datetime \<Rightarrow> string" where
  "strftime_date dt =
     (case civil_from_days (date_of dt) of
        (y, m, d) \<Rightarrow> four_digits y @ ''-'' @ two_digits m @ ''-'' @ two_digits d)"

definition strftime_time :: "datetime \<Rightarrow> string" where
  "strftime_time dt =
     (let h = hour (time_of dt);
          h12 = (if h mod 12 = 0 then 12 else h mod 12)
      in two_digits h12 @ '':'' @ two_digits (minute (time_of dt)) @ '' ''
         @ (if h < 12 then ''AM'' else ''PM''))"

text \<open>
  The result dictionary. \<open>details\<close> has the keys \<open>date\<close>, \<open>time\<close> and
  \<open>provider\<close>, here with the prefix \<open>booked\<close>.
\<close>

record details =
  booked_date :: string
  booked_time :: string
  booked_provider :: string

record booking = reply +
  success :: bool
  details :: "details option"

text \<open>The next value of an autoincremented primary key.\<close>

definition next_id :: "int list \<Rightarrow> int" where
  "next_id ids = fold max ids 0 + 1"

text \<open>
  \<open>slot.is_available = False\<close> on the row that the query of line 203 returned: the
  first one with the given \<open>id\<close> that is available.
\<close>

fun mark_booked :: "int \<Rightarrow> time_slot list \<Rightarrow> time_slot list" where
  "mark_booked sid [] = []"
| "mark_booked sid (s # rest) =
     (if ts_id s = sid \<and> is_available s then s\<lparr>is_available := False\<rparr> # rest
      else s # mark_booked sid rest)"

text \<open>Lines 196 to 200: the user with that email, created and committed if there is none.\<close>

definition get_or_create_user :: "database \<Rightarrow> string \<Rightarrow> string \<Rightarrow> database \<times> user" where
  "get_or_create_user db user_name user_email =
     (case find (\<lambda>u. u_email u = user_email) (users db) of
        Some u \<Rightarrow> (db, u)
      | None \<Rightarrow>
          let u = \<lparr>u_id = next_id (map u_id (users db)), u_name = user_name,
                   u_email = user_email\<rparr>
          in (db\<lparr>users := users db @ [u]\<rparr>, u))"

text \<open>
  \<open>book_appointment\<close> returns the store after the call, the result dictionary and what
  was printed. \<open>slot.provider\<close> is the row of \<open>service_providers\<close> that
  \<open>slot.provider_id\<close> refers to, or \<open>None\<close>, and then \<open>.name\<close> raises after the
  commit. Every exception is caught by the handler of line 237.
\<close>

definition book_appointment ::
  "session \<Rightarrow> string \<Rightarrow> string \<Rightarrow> int \<Rightarrow> int \<Rightarrow> session \<times> booking \<times> log_line list" where
  "book_appointment session user_name user_email pid sid =
     (case session of
        Inl e \<Rightarrow>
          (Inl e,
           \<lparr>message = MsgExn ''Error booking appointment: '' e, success = False,
             details = None\<rparr>,
           [Log ''Error booking appointment'' e])
      | Inr db0 \<Rightarrow>
          (case get_or_create_user db0 user_name user_email of
             (db, u) \<Rightarrow>
               (case find (\<lambda>s. ts_id s = sid \<and> is_available s) (time_slots db) of
                  None \<Rightarrow>
                    (Inr db,
                     \<lparr>message = Msg ''Selected slot is no longer available'',
                       success = False, details = None\<rparr>,
                     [])
                | Some row \<Rightarrow>
                    let appointment =
                          \<lparr>a_id = next_id (map a_id (appointments db)), a_user_id = u_id u,
                            a_provider_id = pid, a_datetime = start_time row,
                            duration_minutes = 30, status = ''booked''\<rparr>;
                        db' = db\<lparr>appointments := appointments db @ [appointment],
                                 time_slots := mark_booked sid (time_slots db)\<rparr>
                    in (case find (\<lambda>p. sp_id p = provider_id row) (service_providers db') of
                          None \<Rightarrow>
                            (Inr db',
                             \<lparr>message = MsgExn ''Error booking appointment: '' AttributeError,
                               success = False, details = None\<rparr>,
                             [Log ''Error booking appointment'' AttributeError])
                        | Some p \<Rightarrow>
                            (Inr db',
                             \<lparr>message = Msg ''Appointment booked successfully!'',
                               success = True,
                               details = Some \<lparr>booked_date = strftime_date (start_time row),
                                               booked_time = strftime_time (start_time row),
                                               booked_provider = sp_name p\<rparr>\<rparr>,
                             [])))))"

section \<open>Request interpretation: \<open>extract_appointment_details\<close>\<close>

text \<open>
  The result dictionary is either \<open>{'success': False, 'message': m}\<close> or
  \<open>{'success': True, 'provider': p, 'date': d, 'time': t}\<close>.
\<close>

datatype extraction =
  Failure string
| Extracted string date string

text \<open>
  The provider, lines 151 to 157: the first word after the first \<open>with\<close>, and, when that
  word contains \<open>dr\<close>, \<open>Dr. \<close> followed by what stands between the first and the
  second \<open>dr\<close> after that \<open>with\<close>, stripped. Indexing an empty list raises.
\<close>

definition extract_provider :: "string \<Rightarrow> exn + string option" where
  "extract_provider text =
     (if py_in ''with'' text then
        (case item (split_sep text ''with'') 1 of
           Inl e \<Rightarrow> Inl e
         | Inr after_with \<Rightarrow>
             (case item (split_ws after_with) 0 of
                Inl e \<Rightarrow> Inl e
              | Inr provider \<Rightarrow>
                  if py_in ''dr'' provider \<or> py_in ''dr.'' provider then
                    (case item (split_sep after_with ''dr'') 1 of
                       Inl e \<Rightarrow> Inl e
                     | Inr name \<Rightarrow> Inr (Some (''Dr. '' @ strip name)))
                  else Inr (Some provider)))
      else Inr None)"

text \<open>The loops over \<open>date_keywords\<close> and \<open>time_mappings\<close>, in insertion order.\<close>

fun first_keyword :: "(string \<times> 'a) list \<Rightarrow> string \<Rightarrow> 'a option" where
  "first_keyword [] text = None"
| "first_keyword ((keyword, v) # rest) text =
     (if py_in keyword text then Some v else first_keyword rest text)"

definition date_keywords :: "date \<Rightarrow> (string \<times> date) list" where
  "date_keywords today =
     [(''today'', today), (''tomorrow'', today + 1), (''day after tomorrow'', today + 2)]"

definition time_mappings :: "(string \<times> string) list" where
  "time_mappings = [(''morning'', ''9 AM''), (''afternoon'', ''2 PM''), (''evening'', ''5 PM'')]"

text \<open>The messages; \<open>quoted s\<close> is \<open>s\<close> between two apostrophes.\<close>

definition quoted :: "string \<Rightarrow> string" where
  "quoted s = [CHR 0x27] @ s @ [CHR 0x27]"

definition provider_prompt :: string where
  "provider_prompt =
     ''Please specify a doctor's name. For example, '' @
     quoted ''Book an appointment with Dr. Smith''"

definition date_prompt :: string where
  "date_prompt =
     ''Please specify a date. You can say '' @ quoted ''today'' @ '', '' @
     quoted ''tomorrow'' @ '', or '' @ quoted ''day after tomorrow''"

definition time_prompt :: string where
  "time_prompt =
     ''Please specify a time. You can say '' @ quoted ''morning'' @ '', '' @
     quoted ''afternoon'' @ '', or '' @ quoted ''evening''"

definition not_understood :: string where
  "not_understood =
     ''I couldn't understand the appointment details. '' @
     ''Please try again with a clear provider name, date, and time.''"

text \<open>
  \<open>today\<close> is \<open>datetime.now().date()\<close> at the call. An exception in the body is caught
  by the handler of line 202. The empty string is the only falsy provider.
\<close>

definition extract_appointment_details :: "date \<Rightarrow> string \<Rightarrow> extraction" where
  "extract_appointment_details today text =
     (case extract_provider text of
        Inl e \<Rightarrow> Failure not_understood
      | Inr p \<Rightarrow>
          (case (if p = Some [] then None else p) of
             None \<Rightarrow> Failure provider_prompt
           | Some provider \<Rightarrow>
               (case first_keyword (date_keywords today) text of
                  None \<Rightarrow> Failure date_prompt
                | Some d \<Rightarrow>
                    (case first_keyword time_mappings text of
                       None \<Rightarrow> Failure time_prompt
                     | Some t \<Rightarrow> Extracted provider d t))))"

section \<open>Properties of conflict resolution\<close>

lemma has_conflict_iff: "has_conflict a rs \<longleftrightarrow> (\<exists>r \<in> set rs. check_overlap a r)"
  by (induction rs) auto

lemma check_overlap_sym: "check_overlap a b \<longleftrightarrow> check_overlap b a"
  by (auto simp: check_overlap_def)

lemma pairwise_free_snoc:
  assumes "pairwise_free xs" and "\<not> has_conflict a xs"
  shows "pairwise_free (xs @ [a])"
proof -
  have na: "\<And>i. i < length xs \<Longrightarrow> \<not> check_overlap a (xs ! i)"
    using assms(2) by (auto simp: has_conflict_iff)
  have nb: "\<And>i. i < length xs \<Longrightarrow> \<not> check_overlap (xs ! i) a"
    using na check_overlap_sym by blast
  show ?thesis
    unfolding pairwise_free_def
  proof (intro allI impI)
    fix i j
    assume i: "i < length (xs @ [a])" and j: "j < length (xs @ [a])" and ne: "i \<noteq> j"
    consider "i < length xs" "j < length xs" | "i < length xs" "j = length xs"
      | "i = length xs" "j < length xs"
      using i j ne by (cases "i < length xs"; cases "j < length xs") auto
    then show "\<not> check_overlap ((xs @ [a]) ! i) ((xs @ [a]) ! j)"
    proof cases
      case 1
      then show ?thesis
        using assms(1) ne by (simp add: pairwise_free_def nth_append)
    next
      case 2
      then show ?thesis using nb by (simp add: nth_append)
    next
      case 3
      then show ?thesis using na by (simp add: nth_append)
    qed
  qed
qed

lemma resolve_loop_free:
  "pairwise_free acc \<Longrightarrow> pairwise_free (resolve_loop acc xs)"
  by (induction xs arbitrary: acc) (auto intro: pairwise_free_snoc)

lemma set_insort_desc: "set (insort_desc k x ys) = insert x (set ys)"
  by (induction ys) auto

lemma set_sorted_desc: "set (sorted_desc k xs) = set xs"
  by (induction xs) (auto simp: sorted_desc_def set_insort_desc)

lemma filter_insort_desc_other:
  "k x \<noteq> c \<Longrightarrow> filter (\<lambda>y. k y = c) (insort_desc k x ys) = filter (\<lambda>y. k y = c) ys"
  by (induction ys) auto

lemma sorted_wrt_insort_desc:
  "sorted_wrt (\<lambda>a b. k b \<le> k a) ys \<Longrightarrow> sorted_wrt (\<lambda>a b. k b \<le> k a) (insort_desc k x ys)"
  by (induction ys) (auto simp: set_insort_desc)

lemma sorted_wrt_sorted_desc: "sorted_wrt (\<lambda>a b. k b \<le> k a) (sorted_desc k xs)"
  by (induction xs) (auto simp: sorted_desc_def sorted_wrt_insort_desc)

lemma filter_insort_desc_same:
  "sorted_wrt (\<lambda>a b. k b \<le> k a) ys \<Longrightarrow>
   filter (\<lambda>y. k y = k x) (insort_desc k x ys) = x # filter (\<lambda>y. k y = k x) ys"
proof (induction ys)
  case Nil
  show ?case by simp
next
  case (Cons y ys)
  show ?case
  proof (cases "k y \<le> k x")
    case True
    then show ?thesis by simp
  next
    case False
    then have "k y \<noteq> k x" by simp
    with False Cons show ?thesis by simp
  qed
qed

lemma sorted_desc_stable:
  "filter (\<lambda>y. k y = c) (sorted_desc k xs) = filter (\<lambda>y. k y = c) xs"
proof (induction xs)
  case Nil
  show ?case by (simp add: sorted_desc_def)
next
  case (Cons x xs)
  have step: "sorted_desc k (x # xs) = insort_desc k x (sorted_desc k xs)"
    by (simp add: sorted_desc_def)
  show ?case
  proof (cases "k x = c")
    case True
    then show ?thesis
      using filter_insort_desc_same [OF sorted_wrt_sorted_desc, of k x xs] Cons
      by (simp add: step)
  next
    case False
    then show ?thesis
      using Cons by (simp add: step filter_insort_desc_other)
  qed
qed


lemma handle_conflicts_pair:
  assumes "priority a = priority b" and "check_overlap a b"
  shows "handle_conflicts [a, b] = [a]"
proof -
  have "sorted_desc priority [a, b] = [a, b]"
    using assms(1) by (simp add: sorted_desc_def)
  moreover have "check_overlap b a"
    using assms(2) check_overlap_sym by blast
  ultimately show ?thesis
    by (simp add: handle_conflicts_def)
qed

lemma resolve_loop_append:
  "resolve_loop acc (l1 @ l2) = resolve_loop (resolve_loop acc l1) l2"
  by (induction l1 arbitrary: acc) auto

lemma resolve_loop_subset: "set acc \<subseteq> set (resolve_loop acc l)"
proof (induction l arbitrary: acc)
  case Nil
  show ?case by simp
next
  case (Cons a l)
  show ?case
    using Cons [of acc] Cons [of "acc @ [a]"] by auto
qed

lemma resolve_loop_maximal:
  "x \<in> set l \<Longrightarrow>
   x \<in> set (resolve_loop acc l) \<or> (\<exists>r \<in> set (resolve_loop acc l). check_overlap x r)"
proof (induction l arbitrary: acc)
  case Nil
  then show ?case by simp
next
  case (Cons a l)
  show ?case
  proof (cases "x = a")
    case True
    show ?thesis
    proof (cases "has_conflict a acc")
      case c: True
      then obtain r where "r \<in> set acc" "check_overlap a r"
        by (auto simp: has_conflict_iff)
      then show ?thesis
        using True c resolve_loop_subset [of acc l] by auto
    next
      case c: False
      then show ?thesis
        using True resolve_loop_subset [of "acc @ [a]" l] by auto
    qed
  next
    case False
    with Cons.prems have "x \<in> set l" by simp
    then show ?thesis
      using Cons.IH [of acc] Cons.IH [of "acc @ [a]"] by auto
  qed
qed

lemma filter_split:
  "filter P ys = us @ x # vs \<Longrightarrow>
   \<exists>ys1 ys2. ys = ys1 @ x # ys2 \<and> filter P ys1 = us \<and> filter P ys2 = vs"
proof (induction us arbitrary: ys)
  case Nil
  then obtain u v where "ys = u @ x # v" "\<forall>y \<in> set u. \<not> P y" "vs = filter P v"
    by (auto simp: filter_eq_Cons_iff)
  then have "ys = u @ x # v \<and> filter P u = [] \<and> filter P v = vs" by simp
  then show ?case by blast
next
  case (Cons w us)
  then have "filter P ys = w # (us @ x # vs)" by simp
  then obtain u v where uv: "ys = u @ w # v" "\<forall>y \<in> set u. \<not> P y" "P w"
    "us @ x # vs = filter P v"
    by (auto simp: filter_eq_Cons_iff)
  from Cons.IH [of v] uv(4) obtain v1 v2 where "v = v1 @ x # v2" "filter P v1 = us" "filter P v2 = vs"
    by auto
  with uv have "ys = (u @ w # v1) @ x # v2 \<and> filter P (u @ w # v1) = w # us \<and> filter P v2 = vs"
    by simp
  then show ?case by blast
qed

lemma sorted_desc_keeps_order:
  assumes "i < j" and "j < length xs" and "k (xs ! i) = k (xs ! j)"
  shows "\<exists>pre mid post. sorted_desc k xs = pre @ xs ! i # mid @ xs ! j # post"
proof -
  let ?P = "\<lambda>y. k y = k (xs ! i)"
  let ?d = "drop (Suc i) xs"
  have i: "i < length xs" using assms by simp
  have x1: "xs = take i xs @ xs ! i # ?d"
    using id_take_nth_drop [OF i] .
  have jd: "j - Suc i < length ?d" using assms by simp
  have nth: "?d ! (j - Suc i) = xs ! j" using assms by simp
  have x2: "?d = take (j - Suc i) ?d @ xs ! j # drop (Suc (j - Suc i)) ?d"
    using id_take_nth_drop [OF jd] nth by simp
  have "filter ?P xs = filter ?P (take i xs) @ xs ! i
          # (filter ?P (take (j - Suc i) ?d) @ xs ! j # filter ?P (drop (Suc (j - Suc i)) ?d))"
    by (subst x1, subst x2) (simp add: assms(3))
  then have f: "filter ?P (sorted_desc k xs) = filter ?P (take i xs) @ xs ! i
          # (filter ?P (take (j - Suc i) ?d) @ xs ! j # filter ?P (drop (Suc (j - Suc i)) ?d))"
    by (simp add: sorted_desc_stable)
  from filter_split [OF f] obtain pre rest where pr: "sorted_desc k xs = pre @ xs ! i # rest"
    "filter ?P rest = filter ?P (take (j - Suc i) ?d) @ xs ! j # filter ?P (drop (Suc (j - Suc i)) ?d)"
    by blast
  from filter_split [OF pr(2)] obtain mid post where "rest = mid @ xs ! j # post" by blast
  with pr(1) show ?thesis by blast
qed

lemma first_of_equal:
  assumes "i < j" and "j < length xs" and "priority (xs ! i) = priority (xs ! j)"
    and "check_overlap (xs ! i) (xs ! j)"
  shows "\<exists>pre mid post. sorted_desc priority xs = pre @ xs ! i # mid @ xs ! j # post
     \<and> set (resolve_loop [] pre) \<subseteq> set (handle_conflicts xs)
     \<and> ((\<exists>r \<in> set (resolve_loop [] pre). check_overlap (xs ! i) r)
        \<or> (xs ! i \<in> set (handle_conflicts xs)
            \<and> handle_conflicts xs = resolve_loop (resolve_loop [] pre @ [xs ! i]) (mid @ post)))"
proof -
  let ?a = "xs ! i" and ?b = "xs ! j"
  from sorted_desc_keeps_order [OF assms(1,2,3)] obtain pre mid post
    where s: "sorted_desc priority xs = pre @ ?a # mid @ ?b # post" by blast
  let ?R = "resolve_loop [] pre"
  have h: "handle_conflicts xs = resolve_loop ?R (?a # mid @ ?b # post)"
    by (simp add: handle_conflicts_def s resolve_loop_append)
  have sub: "set ?R \<subseteq> set (handle_conflicts xs)"
    unfolding h by (rule resolve_loop_subset)
  have "(\<exists>r \<in> set ?R. check_overlap ?a r)
        \<or> (?a \<in> set (handle_conflicts xs)
            \<and> handle_conflicts xs = resolve_loop (?R @ [?a]) (mid @ post))"
  proof (cases "has_conflict ?a ?R")
    case True
    then show ?thesis by (simp add: has_conflict_iff)
  next
    case False
    let ?Q = "resolve_loop (?R @ [?a]) mid"
    have h2: "handle_conflicts xs = resolve_loop ?Q (?b # post)"
      using False by (simp add: h resolve_loop_append)
    have aQ: "?a \<in> set ?Q" using resolve_loop_subset [of "?R @ [?a]" mid] by auto
    have "check_overlap ?b ?a" using assms(4) check_overlap_sym by blast
    with aQ have "has_conflict ?b ?Q" by (auto simp: has_conflict_iff)
    then have h3: "handle_conflicts xs = resolve_loop (?R @ [?a]) (mid @ post)"
      by (simp add: h2 resolve_loop_append)
    moreover have "?a \<in> set (handle_conflicts xs)"
      unfolding h2 using aQ resolve_loop_subset [of ?Q "?b # post"] by blast
    ultimately show ?thesis by blast
  qed
  with s sub show ?thesis by blast
qed

text \<open>
  C4. \<open>handle_conflicts\<close> sorts the candidates by priority, descending and stable,
  and then accepts a candidate exactly when it overlaps none of those accepted before it
  under the half-open test. The accepted list is pairwise non-overlapping, and every
  candidate that is not accepted overlaps an accepted one. Of two overlapping candidates
  of equal priority the one that comes first in the input is considered first: it is
  accepted unless it overlaps a candidate accepted before it, and once it is accepted
  the later one is passed over, the result being the same as without it. An input of just
  two such candidates keeps the first one only.
\<close>

theorem handle_conflicts_greedy:
  "handle_conflicts xs = resolve_loop [] (sorted_desc priority xs)
   \<and> sorted_wrt (\<lambda>x y. priority y \<le> priority x) (sorted_desc priority xs)
   \<and> filter (\<lambda>y. priority y = c) (sorted_desc priority xs) = filter (\<lambda>y. priority y = c) xs
   \<and> resolve_loop acc (a # rest) =
       (if \<exists>r \<in> set acc. check_overlap a r then resolve_loop acc rest
        else resolve_loop (acc @ [a]) rest)
   \<and> (check_overlap a b \<longleftrightarrow> start_time a < end_time b \<and> start_time b < end_time a)
   \<and> pairwise_free (handle_conflicts xs)
   \<and> (x \<in> set xs \<longrightarrow>
        x \<in> set (handle_conflicts xs) \<or> (\<exists>r \<in> set (handle_conflicts xs). check_overlap x r))
   \<and> (i < j \<and> j < length xs \<and> priority (xs ! i) = priority (xs ! j)
        \<and> check_overlap (xs ! i) (xs ! j) \<longrightarrow>
        (\<exists>pre mid post.
            sorted_desc priority xs = pre @ xs ! i # mid @ xs ! j # post
          \<and> set (resolve_loop [] pre) \<subseteq> set (handle_conflicts xs)
          \<and> ((\<exists>r \<in> set (resolve_loop [] pre). check_overlap (xs ! i) r)
             \<or> (xs ! i \<in> set (handle_conflicts xs)
                 \<and> handle_conflicts xs
                     = resolve_loop (resolve_loop [] pre @ [xs ! i]) (mid @ post)))))
   \<and> (priority a = priority b \<and> check_overlap a b \<longrightarrow> handle_conflicts [a, b] = [a])"
proof -
  have "pairwise_free []"
    by (simp add: pairwise_free_def)
  then have free: "pairwise_free (handle_conflicts xs)"
    unfolding handle_conflicts_def by (rule resolve_loop_free)
  have maximal: "x \<in> set xs \<longrightarrow>
        x \<in> set (handle_conflicts xs) \<or> (\<exists>r \<in> set (handle_conflicts xs). check_overlap x r)"
    unfolding handle_conflicts_def
    using resolve_loop_maximal [of x "sorted_desc priority xs" "[]"]
    by (simp add: set_sorted_desc)
  have first: "i < j \<and> j < length xs \<and> priority (xs ! i) = priority (xs ! j)
        \<and> check_overlap (xs ! i) (xs ! j) \<longrightarrow>
        (\<exists>pre mid post.
            sorted_desc priority xs = pre @ xs ! i # mid @ xs ! j # post
          \<and> set (resolve_loop [] pre) \<subseteq> set (handle_conflicts xs)
          \<and> ((\<exists>r \<in> set (resolve_loop [] pre). check_overlap (xs ! i) r)
             \<or> (xs ! i \<in> set (handle_conflicts xs)
                 \<and> handle_conflicts xs
                     = resolve_loop (resolve_loop [] pre @ [xs ! i]) (mid @ post))))"
    using first_of_equal [of i j xs] by blast
  have rest: "handle_conflicts xs = resolve_loop [] (sorted_desc priority xs)
   \<and> sorted_wrt (\<lambda>x y. priority y \<le> priority x) (sorted_desc priority xs)
   \<and> filter (\<lambda>y. priority y = c) (sorted_desc priority xs) = filter (\<lambda>y. priority y = c) xs
   \<and> resolve_loop acc (a # rest) =
       (if \<exists>r \<in> set acc. check_overlap a r then resolve_loop acc rest
        else resolve_loop (acc @ [a]) rest)
   \<and> (check_overlap a b \<longleftrightarrow> start_time a < end_time b \<and> start_time b < end_time a)
   \<and> (priority a = priority b \<and> check_overlap a b \<longrightarrow> handle_conflicts [a, b] = [a])"
    using handle_conflicts_pair [of a b]
    by (simp add: handle_conflicts_def sorted_wrt_sorted_desc sorted_desc_stable
        has_conflict_iff check_overlap_def)
  from free maximal first rest show ?thesis by blast
qed

theorem handle_conflicts_greedy_witness:
  "handle_conflicts
     [\<lparr>start_time = 0, end_time = 30, priority = 1, tag = 0\<rparr>,
      \<lparr>start_time = 10, end_time = 40, priority = 1, tag = 1\<rparr>]
   = [\<lparr>start_time = 0, end_time = 30, priority = 1, tag = 0\<rparr>]
   \<and> pairwise_free (handle_conflicts
     [\<lparr>start_time = 0, end_time = 30, priority = 1, tag = 0\<rparr>,
      \<lparr>start_time = 10, end_time = 40, priority = 1, tag = 1\<rparr>])
   \<and> (\<exists>r \<in> set (handle_conflicts
          [\<lparr>start_time = 0, end_time = 10, priority = 2, tag = 0\<rparr>,
           \<lparr>start_time = 5, end_time = 15, priority = 1, tag = 1\<rparr>,
           \<lparr>start_time = 12, end_time = 20, priority = 1, tag = 2\<rparr>]).
         check_overlap \<lparr>start_time = 5, end_time = 15, priority = 1, tag = 1\<rparr> r)
   \<and> (\<exists>pre mid post.
         sorted_desc priority
           [\<lparr>start_time = 0, end_time = 10, priority = 2, tag = 0\<rparr>,
            \<lparr>start_time = 5, end_time = 15, priority = 1, tag = 1\<rparr>,
            \<lparr>start_time = 12, end_time = 20, priority = 1, tag = 2\<rparr>]
         = pre @ \<lparr>start_time = 5, end_time = 15, priority = 1, tag = 1\<rparr>
             # mid @ \<lparr>start_time = 12, end_time = 20, priority = 1, tag = 2\<rparr> # post)"
proof -
  let ?a = "\<lparr>start_time = 0, end_time = 30, priority = 1, tag = 0\<rparr>"
  let ?b = "\<lparr>start_time = 10, end_time = 40, priority = 1, tag = 1\<rparr>"
  let ?c = "\<lparr>start_time = 0, end_time = 10, priority = 2, tag = 0\<rparr>"
  let ?d = "\<lparr>start_time = 5, end_time = 15, priority = 1, tag = 1\<rparr>"
  let ?e = "\<lparr>start_time = 12, end_time = 20, priority = 1, tag = 2\<rparr>"
  note pair = handle_conflicts_greedy [of "[?a, ?b]" 1 "[]" ?a "[]" ?b ?a 0 1]
  note three = handle_conflicts_greedy [of "[?c, ?d, ?e]" 1 "[]" ?d "[]" ?e ?d 1 2]
  have hyp: "priority ?a = priority ?b \<and> check_overlap ?a ?b"
    by (simp add: check_overlap_def)
  have 1: "handle_conflicts [?a, ?b] = [?a]" using pair hyp by blast
  have 2: "pairwise_free (handle_conflicts [?a, ?b])" using pair by blast
  have mem: "?d \<in> set [?c, ?d, ?e]" by simp
  have out: "?d \<notin> set (handle_conflicts [?c, ?d, ?e])"
    by (simp add: handle_conflicts_def sorted_desc_def check_overlap_def)
  have 3: "\<exists>r \<in> set (handle_conflicts [?c, ?d, ?e]). check_overlap ?d r"
    using three mem out by blast
  have tie: "(1 :: nat) < 2 \<and> 2 < length [?c, ?d, ?e]
      \<and> priority ([?c, ?d, ?e] ! 1) = priority ([?c, ?d, ?e] ! 2)
      \<and> check_overlap ([?c, ?d, ?e] ! 1) ([?c, ?d, ?e] ! 2)"
    by (simp add: check_overlap_def)
  have "\<exists>pre mid post. sorted_desc priority [?c, ?d, ?e]
          = pre @ [?c, ?d, ?e] ! 1 # mid @ [?c, ?d, ?e] ! 2 # post"
    using three tie by blast
  then have 4: "\<exists>pre mid post. sorted_desc priority [?c, ?d, ?e] = pre @ ?d # mid @ ?e # post"
    by simp
  from 1 2 3 4 show ?thesis by blast
qed

text \<open>
  Against C4 as stated: with a higher-priority candidate in front, the first of two
  overlapping candidates of equal priority is rejected and the second one is accepted.
\<close>

theorem handle_conflicts_first_of_equal_counterexample:
  "priority \<lparr>start_time = 5, end_time = 15, priority = 1, tag = 1\<rparr>
     = priority \<lparr>start_time = 12, end_time = 20, priority = 1, tag = 2\<rparr>
   \<and> check_overlap \<lparr>start_time = 5, end_time = 15, priority = 1, tag = 1\<rparr>
        \<lparr>start_time = 12, end_time = 20, priority = 1, tag = 2\<rparr>
   \<and> handle_conflicts
       [\<lparr>start_time = 0, end_time = 10, priority = 2, tag = 0\<rparr>,
        \<lparr>start_time = 5, end_time = 15, priority = 1, tag = 1\<rparr>,
        \<lparr>start_time = 12, end_time = 20, priority = 1, tag = 2\<rparr>]
     = [\<lparr>start_time = 0, end_time = 10, priority = 2, tag = 0\<rparr>,
        \<lparr>start_time = 12, end_time = 20, priority = 1, tag = 2\<rparr>]"
  by (simp add: handle_conflicts_def sorted_desc_def check_overlap_def)

section \<open>Properties of slot derivation\<close>

lemma num_possible_eq:
  assumes "0 < d" and "s \<le> e"
  shows "py_int (total_seconds (e - s) / 60 / of_int d) = (e - s) div (us_per_minute * d)"
proof -
  have "total_seconds (e - s) / 60 / of_int d = (of_int (e - s) :: rat) / of_int (us_per_minute * d)"
    by (simp add: total_seconds_def us_per_second_def us_per_minute_def)
  moreover have "(0::rat) \<le> of_int (e - s) / of_int (us_per_minute * d)"
    using assms by (simp add: us_per_minute_def)
  ultimately show ?thesis
    by (simp only: py_int_def if_True floor_divide_of_int_eq)
qed

lemma num_possible_eq':
  "0 < d \<Longrightarrow> s \<le> e \<Longrightarrow>
   py_int (total_seconds (e - s) / (60 * of_int d)) = (e - s) div (us_per_minute * d)"
  using num_possible_eq [of d s e] by simp

lemma appointment_slots_map:
  "(\<forall>i \<in> set js. s + timedelta_minutes (i * d) + timedelta_minutes d \<le> e) \<Longrightarrow>
   appointment_slots s e d js = map (nth_slot s d) js"
  by (induction js) (simp_all add: nth_slot_def Let_def)

lemma offset_fits:
  assumes "0 < d" and "0 \<le> i" and "i \<le> (e - s) div (us_per_minute * d) - 1"
  shows "s + timedelta_minutes (i * d) + timedelta_minutes d \<le> e"
proof -
  let ?m = "us_per_minute * d"
  have m: "0 < ?m" using assms(1) by (simp add: us_per_minute_def)
  have "(i + 1) * ?m \<le> ((e - s) div ?m) * ?m"
    using assms(3) m by (simp add: mult_right_mono)
  also have "\<dots> \<le> e - s"
    using pos_mod_sign [OF m, of "e - s"] div_mult_mod_eq [of "e - s" ?m] by linarith
  finally have "(i + 1) * ?m \<le> e - s" .
  moreover have "timedelta_minutes (i * d) + timedelta_minutes d = (i + 1) * ?m"
    by (simp add: timedelta_minutes_def algebra_simps)
  ultimately show ?thesis by linarith
qed


lemma window_slots_available:
  assumes "is_available w" and "now < start_time w" and "start_time w \<le> end_time w" and "0 < d"
  shows "window_slots now d w =
         Inr (map (nth_slot (start_time w) d)
                [0 .. (end_time w - start_time w) div (us_per_minute * d) - 1])"
proof -
  let ?n = "(end_time w - start_time w) div (us_per_minute * d)"
  have fits: "\<forall>i \<in> set [0 .. ?n - 1].
      start_time w + timedelta_minutes (i * d) + timedelta_minutes d \<le> end_time w"
    using offset_fits [OF assms(4)] by simp
  show ?thesis
    using assms appointment_slots_map [OF fits]
    by (simp add: window_slots_def num_possible_eq')
qed

lemma window_slots_skipped:
  "\<not> is_available w \<or> start_time w \<le> now \<Longrightarrow> window_slots now d w = Inr []"
  by (auto simp: window_slots_def)

lemma loop_append_acc:
  "get_available_slots_loop now d ws acc =
   (case get_available_slots_loop now d ws [] of Inl x \<Rightarrow> Inl x | Inr xs \<Rightarrow> Inr (acc @ xs))"
proof (induction ws arbitrary: acc)
  case Nil
  show ?case by simp
next
  case (Cons w ws)
  show ?case
  proof (cases "window_slots now d w")
    case (Inl x)
    then show ?thesis by simp
  next
    case (Inr new)
    then show ?thesis
      using Cons [of "acc @ new"] Cons [of new]
      by (simp split: sum.splits)
  qed
qed

lemma window_slots_total: "0 < d \<Longrightarrow> \<exists>xs. window_slots now d w = Inr xs"
  by (simp add: window_slots_def Let_def)

lemma loop_total: "0 < d \<Longrightarrow> \<exists>xs. get_available_slots_loop now d ws acc = Inr xs"
proof (induction ws arbitrary: acc)
  case Nil
  show ?case by simp
next
  case (Cons w ws)
  obtain new where "window_slots now d w = Inr new"
    using window_slots_total [OF Cons.prems] by blast
  then show ?case
    using Cons.IH [OF Cons.prems, of "acc @ new"] by simp
qed

lemma loop_append_list:
  "get_available_slots_loop now d (ws @ ws') acc =
   (case get_available_slots_loop now d ws acc of
      Inl x \<Rightarrow> Inl x | Inr xs \<Rightarrow> get_available_slots_loop now d ws' xs)"
  by (induction ws arbitrary: acc) (auto split: sum.splits)

lemma get_available_slots_append:
  assumes "0 < d"
  shows "\<exists>xs ys. get_available_slots now ws d = Inr xs \<and> get_available_slots now ws' d = Inr ys
           \<and> get_available_slots now (ws @ ws') d = Inr (xs @ ys)"
proof -
  obtain xs where xs: "get_available_slots_loop now d ws [] = Inr xs"
    using loop_total [OF assms] by blast
  obtain ys where ys: "get_available_slots_loop now d ws' [] = Inr ys"
    using loop_total [OF assms] by blast
  have "get_available_slots_loop now d (ws @ ws') [] = Inr (xs @ ys)"
    using xs ys loop_append_acc [of now d ws' xs] by (simp add: loop_append_list)
  with xs ys show ?thesis by (simp add: get_available_slots_def)
qed

lemma nth_slot_facts:
  assumes "0 < d" and "s \<le> e" and "i < nat ((e - s) div (us_per_minute * d))"
  shows "s \<le> start_time (nth_slot s d (int i))"
    and "end_time (nth_slot s d (int i)) \<le> e"
proof -
  show "s \<le> start_time (nth_slot s d (int i))"
    using assms(1) by (simp add: nth_slot_def timedelta_minutes_def us_per_minute_def)
  have "int i \<le> (e - s) div (us_per_minute * d) - 1"
    using assms(3) by linarith
  from offset_fits [OF assms(1) _ this]
  show "end_time (nth_slot s d (int i)) \<le> e"
    by (simp add: nth_slot_def)
qed

lemma nth_slot_order:
  assumes "0 < d" and "i < j"
  shows "end_time (nth_slot s d (int i)) \<le> start_time (nth_slot s d (int j))"
proof -
  have "int i + 1 \<le> int j" using assms(2) by simp
  then have "(int i + 1) * (d * us_per_minute) \<le> int j * (d * us_per_minute)"
    using assms(1) by (intro mult_right_mono) (simp_all add: us_per_minute_def)
  then show ?thesis
    by (simp add: nth_slot_def timedelta_minutes_def algebra_simps)
qed

lemma floor_window_minutes:
  "0 < d \<Longrightarrow> \<lfloor>window_minutes w / of_int d\<rfloor> = (end_time w - start_time w) div (us_per_minute * d)"
proof -
  have "window_minutes w / of_int d = (of_int (end_time w - start_time w) :: rat) / of_int (us_per_minute * d)"
    by (simp add: window_minutes_def)
  then show ?thesis
    by (simp only: floor_divide_of_int_eq)
qed

text \<open>
  C5. A window that is available, starts after the current time and has a length of
  \<open>L\<close> minutes gives, for a duration of \<open>d > 0\<close> minutes, exactly \<open>floor (L / d)\<close>
  slots: slot \<open>i\<close> starts \<open>i * d\<close> minutes after the window's start, lasts \<open>d\<close>
  minutes and lies within the window, and consecutive slots do not overlap. A window that
  is unavailable or has already begun gives no slot, and the slots of a schedule are the
  slots of its windows, in order.
\<close>

theorem get_available_slots_window:
  "(is_available w \<and> now < start_time w \<and> start_time w \<le> end_time w \<and> 0 < d \<longrightarrow>
      (\<exists>slots. get_available_slots now [w] d = Inr slots
         \<and> int (length slots) = \<lfloor>window_minutes w / of_int d\<rfloor>
         \<and> (\<forall>i < length slots.
               start_time (slots ! i) = start_time w + timedelta_minutes (int i * d)
             \<and> end_time (slots ! i) = start_time (slots ! i) + timedelta_minutes d
             \<and> duration (slots ! i) = d
             \<and> start_time w \<le> start_time (slots ! i)
             \<and> end_time (slots ! i) \<le> end_time w)
         \<and> (\<forall>i < length slots. \<forall>j < length slots.
               i < j \<longrightarrow> end_time (slots ! i) \<le> start_time (slots ! j))))
   \<and> (\<not> is_available w \<or> start_time w \<le> now \<longrightarrow> get_available_slots now [w] d = Inr [])
   \<and> (0 < d \<longrightarrow>
        (\<exists>xs ys. get_available_slots now ws d = Inr xs \<and> get_available_slots now ws' d = Inr ys
           \<and> get_available_slots now (ws @ ws') d = Inr (xs @ ys)))"
proof (intro conjI impI)
  assume a: "is_available w \<and> now < start_time w \<and> start_time w \<le> end_time w \<and> 0 < d"
  let ?s = "start_time w" and ?e = "end_time w"
  let ?n = "(?e - ?s) div (us_per_minute * d)"
  let ?slots = "map (nth_slot ?s d) [0 .. ?n - 1]"
  have d: "0 < d" and se: "?s \<le> ?e" using a by simp_all
  have n0: "0 \<le> ?n"
    using d se by (simp add: us_per_minute_def pos_imp_zdiv_nonneg_iff)
  have res: "get_available_slots now [w] d = Inr ?slots"
    using a window_slots_available [of w now d] by (simp add: get_available_slots_def)
  have len: "length ?slots = nat ?n" by simp
  have nth: "\<And>i. i < nat ?n \<Longrightarrow> ?slots ! i = nth_slot ?s d (int i)"
    by (simp add: nth_upto)
  have c1: "int (length ?slots) = \<lfloor>window_minutes w / of_int d\<rfloor>"
    using n0 by (simp add: floor_window_minutes [OF d])
  have c2: "\<forall>i < length ?slots.
               start_time (?slots ! i) = ?s + timedelta_minutes (int i * d)
             \<and> end_time (?slots ! i) = start_time (?slots ! i) + timedelta_minutes d
             \<and> duration (?slots ! i) = d
             \<and> ?s \<le> start_time (?slots ! i)
             \<and> end_time (?slots ! i) \<le> ?e"
  proof (intro allI impI)
    fix i assume "i < length ?slots"
    then have i: "i < nat ?n" by simp
    show "start_time (?slots ! i) = ?s + timedelta_minutes (int i * d)
             \<and> end_time (?slots ! i) = start_time (?slots ! i) + timedelta_minutes d
             \<and> duration (?slots ! i) = d
             \<and> ?s \<le> start_time (?slots ! i)
             \<and> end_time (?slots ! i) \<le> ?e"
      using nth_slot_facts [OF d se i] nth [OF i]
      by (simp add: nth_slot_def)
  qed
  have c3: "\<forall>i < length ?slots. \<forall>j < length ?slots.
               i < j \<longrightarrow> end_time (?slots ! i) \<le> start_time (?slots ! j)"
  proof (intro allI impI)
    fix i j assume "i < length ?slots" "j < length ?slots" "i < j"
    then have "i < nat ?n" "j < nat ?n" "i < j" by simp_all
    then show "end_time (?slots ! i) \<le> start_time (?slots ! j)"
      using nth_slot_order [OF d, of i j ?s] nth by simp
  qed
  show "\<exists>slots. get_available_slots now [w] d = Inr slots
         \<and> int (length slots) = \<lfloor>window_minutes w / of_int d\<rfloor>
         \<and> (\<forall>i < length slots.
               start_time (slots ! i) = start_time w + timedelta_minutes (int i * d)
             \<and> end_time (slots ! i) = start_time (slots ! i) + timedelta_minutes d
             \<and> duration (slots ! i) = d
             \<and> start_time w \<le> start_time (slots ! i)
             \<and> end_time (slots ! i) \<le> end_time w)
         \<and> (\<forall>i < length slots. \<forall>j < length slots.
               i < j \<longrightarrow> end_time (slots ! i) \<le> start_time (slots ! j))"
    using res c1 c2 c3 by blast
next
  assume "\<not> is_available w \<or> start_time w \<le> now"
  then show "get_available_slots now [w] d = Inr []"
    using window_slots_skipped [of w now d] by (simp add: get_available_slots_def)
next
  assume "0 < d"
  then show "\<exists>xs ys. get_available_slots now ws d = Inr xs \<and> get_available_slots now ws' d = Inr ys
           \<and> get_available_slots now (ws @ ws') d = Inr (xs @ ys)"
    by (rule get_available_slots_append)
qed

theorem get_available_slots_window_witness:
  "\<exists>slots. get_available_slots (datetime_of 2024 3 20 8 0)
       [\<lparr>start_time = datetime_of 2024 3 20 9 0, end_time = datetime_of 2024 3 20 10 30,
         is_available = True\<rparr>] 30 = Inr slots
     \<and> int (length slots) = 3
     \<and> (\<forall>i < length slots.
           start_time (slots ! i) = datetime_of 2024 3 20 9 0 + timedelta_minutes (int i * 30)
         \<and> end_time (slots ! i) = start_time (slots ! i) + timedelta_minutes 30
         \<and> duration (slots ! i) = 30
         \<and> datetime_of 2024 3 20 9 0 \<le> start_time (slots ! i)
         \<and> end_time (slots ! i) \<le> datetime_of 2024 3 20 10 30)
     \<and> get_available_slots (datetime_of 2024 3 20 8 0)
         [\<lparr>start_time = datetime_of 2024 3 20 7 0, end_time = datetime_of 2024 3 20 10 30,
           is_available = True\<rparr>] 30 = Inr []
     \<and> get_available_slots (datetime_of 2024 3 20 8 0)
         ([\<lparr>start_time = datetime_of 2024 3 20 7 0, end_time = datetime_of 2024 3 20 10 30,
            is_available = True\<rparr>]
          @ [\<lparr>start_time = datetime_of 2024 3 20 9 0, end_time = datetime_of 2024 3 20 10 30,
              is_available = True\<rparr>]) 30 = Inr slots"
proof -
  let ?begun = "\<lparr>start_time = datetime_of 2024 3 20 7 0, end_time = datetime_of 2024 3 20 10 30,
                  is_available = True\<rparr>"
  have begun: "\<not> is_available ?begun \<or> start_time ?begun \<le> datetime_of 2024 3 20 8 0"
    by (simp add: datetime_of_def days_from_civil_def us_per_day_def us_per_hour_def
        us_per_minute_def)
  let ?now = "datetime_of 2024 3 20 8 0"
  let ?w = "\<lparr>start_time = datetime_of 2024 3 20 9 0, end_time = datetime_of 2024 3 20 10 30,
              is_available = True\<rparr>"
  have hyp: "is_available ?w \<and> ?now < start_time ?w \<and> start_time ?w \<le> end_time ?w
             \<and> (0::int) < 30"
    by (simp add: datetime_of_def days_from_civil_def us_per_day_def us_per_hour_def
        us_per_minute_def)
  have fl: "\<lfloor>window_minutes ?w / of_int 30\<rfloor> = 3"
    by (simp add: window_minutes_def datetime_of_def days_from_civil_def us_per_day_def
        us_per_hour_def us_per_minute_def)
  have "\<exists>slots. get_available_slots ?now [?w] 30 = Inr slots
         \<and> int (length slots) = \<lfloor>window_minutes ?w / of_int 30\<rfloor>
         \<and> (\<forall>i < length slots.
               start_time (slots ! i) = start_time ?w + timedelta_minutes (int i * 30)
             \<and> end_time (slots ! i) = start_time (slots ! i) + timedelta_minutes 30
             \<and> duration (slots ! i) = 30
             \<and> start_time ?w \<le> start_time (slots ! i)
             \<and> end_time (slots ! i) \<le> end_time ?w)
         \<and> (\<forall>i < length slots. \<forall>j < length slots.
               i < j \<longrightarrow> end_time (slots ! i) \<le> start_time (slots ! j))"
    using get_available_slots_window [of ?w ?now 30 "[]" "[]"] hyp by blast
  then obtain slots where
    "get_available_slots ?now [?w] 30 = Inr slots"
    "int (length slots) = \<lfloor>window_minutes ?w / of_int 30\<rfloor>"
    "\<forall>i < length slots.
               start_time (slots ! i) = start_time ?w + timedelta_minutes (int i * 30)
             \<and> end_time (slots ! i) = start_time (slots ! i) + timedelta_minutes 30
             \<and> duration (slots ! i) = 30
             \<and> start_time ?w \<le> start_time (slots ! i)
             \<and> end_time (slots ! i) \<le> end_time ?w"
    by blast
  note main = this
  have skipped: "get_available_slots ?now [?begun] 30 = Inr []"
    using get_available_slots_window [of ?begun ?now 30 "[]" "[]"] begun by blast
  obtain xs ys where "get_available_slots ?now [?begun] 30 = Inr xs"
    "get_available_slots ?now [?w] 30 = Inr ys"
    "get_available_slots ?now ([?begun] @ [?w]) 30 = Inr (xs @ ys)"
    using get_available_slots_window [of ?w ?now 30 "[?begun]" "[?w]"] by auto
  with skipped main(1) have both: "get_available_slots ?now ([?begun] @ [?w]) 30 = Inr slots"
    by simp
  from main skipped both show ?thesis
    unfolding fl by (intro exI [of _ slots]) auto
qed

section \<open>Properties of ranking\<close>

lemma mset_insort_desc: "mset (insort_desc k x ys) = add_mset x (mset ys)"
  by (induction ys) auto

lemma mset_sorted_desc: "mset (sorted_desc k xs) = mset xs"
  by (induction xs) (auto simp: sorted_desc_def mset_insort_desc)

lemma insort_desc_const: "\<forall>y \<in> set ys. k y = k x \<Longrightarrow> insort_desc k x ys = x # ys"
  by (cases ys) auto

lemma sorted_desc_const: "\<forall>x \<in> set xs. k x = c \<Longrightarrow> sorted_desc k xs = xs"
proof (induction xs)
  case Nil
  show ?case by (simp add: sorted_desc_def)
next
  case (Cons x xs)
  then have "sorted_desc k xs = xs" by simp
  moreover have "sorted_desc k (x # xs) = insort_desc k x (sorted_desc k xs)"
    by (simp add: sorted_desc_def)
  ultimately show ?case
    using Cons.prems insort_desc_const [of xs k x] by simp
qed

lemma fst_rank_slots:
  "fst (rank_slots xs p) =
     (case preferred_time p of None \<Rightarrow> xs | Some pt \<Rightarrow> map (set_score pt) xs)"
  by (cases xs; cases "preferred_time p") (simp_all add: rank_slots_def Let_def)

lemma length_sorted_desc: "length (sorted_desc k xs) = length xs"
  using mset_sorted_desc [of k xs] by (metis size_mset)

lemma set_sorted_desc_mset: "set (sorted_desc k xs) = set xs"
  using mset_sorted_desc [of k xs] by (metis set_mset_mset)

text \<open>
  C8. \<open>rank_slots\<close> and \<open>suggest_alternative_slots\<close> leave the keys
  \<open>start_time\<close>, \<open>end_time\<close> and \<open>duration\<close> of every input slot as they were, and
  each leaves the other's score key alone. But \<open>rank_slots\<close>, given a preferred time,
  stores in every input slot the key \<open>score\<close>, with the value \<open>1 / (1 + m)\<close> for the
  distance \<open>m\<close> in clock minutes, and changes nothing without a preferred time;
  \<open>suggest_alternative_slots\<close> stores in every input slot the key
  \<open>alternative_score\<close>, with the value \<open>1 / (1 + h)\<close> for the distance \<open>h\<close> in hours
  to the requested start. The returned lists hold these same slots: all of them, sorted,
  from \<open>rank_slots\<close>, at most three of them from \<open>suggest_alternative_slots\<close>.
\<close>

theorem rank_slots_frame:
  "fst (rank_slots xs p) =
     (case preferred_time p of None \<Rightarrow> xs | Some pt \<Rightarrow> map (set_score pt) xs)
   \<and> map start_time (fst (rank_slots xs p)) = map start_time xs
   \<and> map end_time (fst (rank_slots xs p)) = map end_time xs
   \<and> map duration (fst (rank_slots xs p)) = map duration xs
   \<and> map alternative_score (fst (rank_slots xs p)) = map alternative_score xs
   \<and> (preferred_time p = None \<longrightarrow> fst (rank_slots xs p) = xs)
   \<and> (preferred_time p = Some pt \<and> i < length xs \<longrightarrow>
        score (fst (rank_slots xs p) ! i) =
          Some (1 / (1 + of_int \<bar>(hour (time_of (start_time (xs ! i))) * 60
                                     + minute (time_of (start_time (xs ! i))))
                                   - (hour pt * 60 + minute pt)\<bar>)))
   \<and> mset (snd (rank_slots xs p)) = mset (fst (rank_slots xs p))
   \<and> fst (suggest_alternative_slots u xs) = map (set_alternative_score (start_time u)) xs
   \<and> map start_time (fst (suggest_alternative_slots u xs)) = map start_time xs
   \<and> map end_time (fst (suggest_alternative_slots u xs)) = map end_time xs
   \<and> map duration (fst (suggest_alternative_slots u xs)) = map duration xs
   \<and> map score (fst (suggest_alternative_slots u xs)) = map score xs
   \<and> (i < length xs \<longrightarrow>
        alternative_score (fst (suggest_alternative_slots u xs) ! i) =
          Some (1 / (1 + \<bar>of_int (start_time (xs ! i) - start_time u) / 3600000000\<bar>)))
   \<and> snd (suggest_alternative_slots u xs)
       = take 3 (sorted_desc alternative_key (fst (suggest_alternative_slots u xs)))
   \<and> set (snd (suggest_alternative_slots u xs)) \<subseteq> set (fst (suggest_alternative_slots u xs))
   \<and> length (snd (suggest_alternative_slots u xs)) = min 3 (length xs)"
proof -
  have frame: "fst (rank_slots xs p) =
     (case preferred_time p of None \<Rightarrow> xs | Some pt \<Rightarrow> map (set_score pt) xs)
   \<and> map start_time (fst (rank_slots xs p)) = map start_time xs
   \<and> map end_time (fst (rank_slots xs p)) = map end_time xs
   \<and> map duration (fst (rank_slots xs p)) = map duration xs
   \<and> map alternative_score (fst (rank_slots xs p)) = map alternative_score xs
   \<and> mset (snd (rank_slots xs p)) = mset (fst (rank_slots xs p))
   \<and> fst (suggest_alternative_slots u xs) = map (set_alternative_score (start_time u)) xs
   \<and> map start_time (fst (suggest_alternative_slots u xs)) = map start_time xs
   \<and> map end_time (fst (suggest_alternative_slots u xs)) = map end_time xs
   \<and> map duration (fst (suggest_alternative_slots u xs)) = map duration xs
   \<and> map score (fst (suggest_alternative_slots u xs)) = map score xs
   \<and> snd (suggest_alternative_slots u xs)
       = take 3 (sorted_desc alternative_key (fst (suggest_alternative_slots u xs)))"
    by (cases xs; cases "preferred_time p")
       (simp_all add: rank_slots_def suggest_alternative_slots_def Let_def set_score_def
          set_alternative_score_def mset_sorted_desc comp_def)
  have none: "preferred_time p = None \<longrightarrow> fst (rank_slots xs p) = xs"
    by (simp add: fst_rank_slots)
  have stored: "preferred_time p = Some pt \<and> i < length xs \<longrightarrow>
        score (fst (rank_slots xs p) ! i) =
          Some (1 / (1 + of_int \<bar>(hour (time_of (start_time (xs ! i))) * 60
                                     + minute (time_of (start_time (xs ! i))))
                                   - (hour pt * 60 + minute pt)\<bar>))"
    by (simp add: fst_rank_slots set_score_def rank_time_diff_def)
  have stored': "i < length xs \<longrightarrow>
        alternative_score (fst (suggest_alternative_slots u xs) ! i) =
          Some (1 / (1 + \<bar>of_int (start_time (xs ! i) - start_time u) / 3600000000\<bar>))"
    by (simp add: suggest_alternative_slots_def Let_def set_alternative_score_def
        alternative_time_diff_def total_seconds_def us_per_second_def)
  have sub: "set (snd (suggest_alternative_slots u xs))
             \<subseteq> set (fst (suggest_alternative_slots u xs))"
    using set_take_subset [of 3 "sorted_desc alternative_key
        (map (set_alternative_score (start_time u)) xs)"]
    by (simp add: suggest_alternative_slots_def Let_def set_sorted_desc_mset)
  have len: "length (snd (suggest_alternative_slots u xs)) = min 3 (length xs)"
    by (simp add: suggest_alternative_slots_def Let_def length_sorted_desc min.commute)
  from frame none stored stored' sub len show ?thesis by blast
qed

theorem rank_slots_frame_witness:
  "score (fst (rank_slots
      [\<lparr>start_time = datetime_of 2024 3 20 9 0, end_time = datetime_of 2024 3 20 9 30,
        duration = 30, score = None, alternative_score = None\<rparr>,
       \<lparr>start_time = datetime_of 2024 3 20 9 30, end_time = datetime_of 2024 3 20 10 0,
        duration = 30, score = None, alternative_score = None\<rparr>]
      \<lparr>preferred_time = Some (clock_of 9 10)\<rparr>) ! 1) = Some (1 / 21)
   \<and> alternative_score (fst (suggest_alternative_slots
      \<lparr>start_time = datetime_of 2024 3 20 8 30, end_time = datetime_of 2024 3 20 9 0\<rparr>
      [\<lparr>start_time = datetime_of 2024 3 20 9 0, end_time = datetime_of 2024 3 20 9 30,
        duration = 30, score = None, alternative_score = None\<rparr>,
       \<lparr>start_time = datetime_of 2024 3 20 9 30, end_time = datetime_of 2024 3 20 10 0,
        duration = 30, score = None, alternative_score = None\<rparr>]) ! 1) = Some (1 / 2)
   \<and> fst (rank_slots
      [\<lparr>start_time = datetime_of 2024 3 20 9 0, end_time = datetime_of 2024 3 20 9 30,
        duration = 30, score = None, alternative_score = None\<rparr>,
       \<lparr>start_time = datetime_of 2024 3 20 9 30, end_time = datetime_of 2024 3 20 10 0,
        duration = 30, score = None, alternative_score = None\<rparr>]
      \<lparr>preferred_time = None\<rparr>)
     = [\<lparr>start_time = datetime_of 2024 3 20 9 0, end_time = datetime_of 2024 3 20 9 30,
        duration = 30, score = None, alternative_score = None\<rparr>,
       \<lparr>start_time = datetime_of 2024 3 20 9 30, end_time = datetime_of 2024 3 20 10 0,
        duration = 30, score = None, alternative_score = None\<rparr>]"
proof -
  let ?a = "\<lparr>start_time = datetime_of 2024 3 20 9 0, end_time = datetime_of 2024 3 20 9 30,
        duration = 30, score = None, alternative_score = None\<rparr>"
  let ?b = "\<lparr>start_time = datetime_of 2024 3 20 9 30, end_time = datetime_of 2024 3 20 10 0,
        duration = 30, score = None, alternative_score = None\<rparr>"
  let ?u = "\<lparr>start_time = datetime_of 2024 3 20 8 30, end_time = datetime_of 2024 3 20 9 0\<rparr>"
  let ?p = "\<lparr>preferred_time = Some (clock_of 9 10)\<rparr>"
  let ?q = "\<lparr>preferred_time = None\<rparr>"
  note defs = datetime_of_def days_from_civil_def clock_of_def time_of_def hour_def
    minute_def us_per_day_def us_per_hour_def us_per_minute_def
  note t = rank_slots_frame [of "[?a, ?b]" ?p "clock_of 9 10" 1 ?u]
  have hyp: "preferred_time ?p = Some (clock_of 9 10) \<and> (1 :: nat) < length [?a, ?b]" by simp
  have "score (fst (rank_slots [?a, ?b] ?p) ! 1) =
          Some (1 / (1 + of_int \<bar>(hour (time_of (start_time ([?a, ?b] ! 1))) * 60
                                     + minute (time_of (start_time ([?a, ?b] ! 1))))
                                   - (hour (clock_of 9 10) * 60 + minute (clock_of 9 10))\<bar>))"
    using t hyp by blast
  then have 1: "score (fst (rank_slots [?a, ?b] ?p) ! 1) = Some (1 / 21)"
    by (simp add: defs)
  have "alternative_score (fst (suggest_alternative_slots ?u [?a, ?b]) ! 1) =
          Some (1 / (1 + \<bar>of_int (start_time ([?a, ?b] ! 1) - start_time ?u) / 3600000000\<bar>))"
    using t hyp by blast
  then have 2: "alternative_score (fst (suggest_alternative_slots ?u [?a, ?b]) ! 1) = Some (1 / 2)"
    by (simp add: defs)
  have "preferred_time ?q = None" by simp
  then have 3: "fst (rank_slots [?a, ?b] ?q) = [?a, ?b]"
    using rank_slots_frame [of "[?a, ?b]" ?q "clock_of 9 10" 1 ?u] by blast
  from 1 2 3 show ?thesis by blast
qed

text \<open>
  Against C8 as stated: a slot as \<open>get_available_slots\<close> makes it, without the key
  \<open>score\<close>, carries that key in the caller's list after the call.
\<close>

theorem rank_slots_mutates_counterexample:
  "fst (rank_slots
         [\<lparr>start_time = datetime_of 2024 3 20 9 0, end_time = datetime_of 2024 3 20 9 30,
           duration = 30, score = None, alternative_score = None\<rparr>]
         \<lparr>preferred_time = Some (clock_of 9 10)\<rparr>)
   = [\<lparr>start_time = datetime_of 2024 3 20 9 0, end_time = datetime_of 2024 3 20 9 30,
        duration = 30, score = Some (1 / 11), alternative_score = None\<rparr>]
   \<and> fst (rank_slots
         [\<lparr>start_time = datetime_of 2024 3 20 9 0, end_time = datetime_of 2024 3 20 9 30,
           duration = 30, score = None, alternative_score = None\<rparr>]
         \<lparr>preferred_time = Some (clock_of 9 10)\<rparr>)
   \<noteq> [\<lparr>start_time = datetime_of 2024 3 20 9 0, end_time = datetime_of 2024 3 20 9 30,
        duration = 30, score = None, alternative_score = None\<rparr>]"
  by (simp add: rank_slots_def Let_def set_score_def rank_time_diff_def datetime_of_def
      days_from_civil_def clock_of_def time_of_def hour_def minute_def us_per_day_def
      us_per_hour_def us_per_minute_def)

text \<open>
  C10. Without a preferred time \<open>rank_slots\<close> stores no score, and when no input slot
  carries the key \<open>score\<close> every slot sorts with the key 0 and the returned list is the
  input list, in its order.
\<close>

theorem rank_slots_no_preference:
  "(\<forall>s \<in> set xs. score s = None) \<Longrightarrow> preferred_time p = None \<Longrightarrow>
   rank_slots xs p = (xs, xs)"
proof -
  assume a: "\<forall>s \<in> set xs. score s = None" and p: "preferred_time p = None"
  then have "\<forall>s \<in> set xs. score_key s = 0" by (simp add: score_key_def)
  then have "sorted_desc score_key xs = xs" by (rule sorted_desc_const)
  with p show ?thesis by (simp add: rank_slots_def)
qed

theorem rank_slots_no_preference_witness:
  "rank_slots
     [\<lparr>start_time = 0, end_time = 30, duration = 30, score = None, alternative_score = None\<rparr>,
      \<lparr>start_time = 30, end_time = 60, duration = 30, score = None, alternative_score = None\<rparr>]
     \<lparr>preferred_time = None\<rparr>
   = ([\<lparr>start_time = 0, end_time = 30, duration = 30, score = None, alternative_score = None\<rparr>,
       \<lparr>start_time = 30, end_time = 60, duration = 30, score = None, alternative_score = None\<rparr>],
      [\<lparr>start_time = 0, end_time = 30, duration = 30, score = None, alternative_score = None\<rparr>,
       \<lparr>start_time = 30, end_time = 60, duration = 30, score = None, alternative_score = None\<rparr>])"
  by (rule rank_slots_no_preference) simp_all

text \<open>
  Against C10 as stated: slots that carry the key \<open>score\<close>, as an earlier call of
  \<open>rank_slots\<close> with a preferred time leaves them, are reordered by that key.
\<close>

theorem rank_slots_no_preference_counterexample:
  "snd (rank_slots
     [\<lparr>start_time = 0, end_time = 30, duration = 30, score = Some (1 / 10),
       alternative_score = None\<rparr>,
      \<lparr>start_time = 30, end_time = 60, duration = 30, score = Some (9 / 10),
       alternative_score = None\<rparr>]
     \<lparr>preferred_time = None\<rparr>)
   = [\<lparr>start_time = 30, end_time = 60, duration = 30, score = Some (9 / 10),
        alternative_score = None\<rparr>,
      \<lparr>start_time = 0, end_time = 30, duration = 30, score = Some (1 / 10),
        alternative_score = None\<rparr>]
   \<and> snd (rank_slots
     [\<lparr>start_time = 0, end_time = 30, duration = 30, score = Some (1 / 10),
       alternative_score = None\<rparr>,
      \<lparr>start_time = 30, end_time = 60, duration = 30, score = Some (9 / 10),
       alternative_score = None\<rparr>]
     \<lparr>preferred_time = None\<rparr>)
   \<noteq> [\<lparr>start_time = 0, end_time = 30, duration = 30, score = Some (1 / 10),
       alternative_score = None\<rparr>,
      \<lparr>start_time = 30, end_time = 60, duration = 30, score = Some (9 / 10),
       alternative_score = None\<rparr>]"
  by (simp add: rank_slots_def Let_def sorted_desc_def score_key_def)

section \<open>Properties of suggestion\<close>

lemma find_optimal_slot_open:
  "find_optimal_slot (Inr db) pid d t = (None, [Log ''Error finding optimal slot'' AttributeError])"
  by (simp add: find_optimal_slot_def slots_of_day_def)

lemma find_optimal_slot_never:
  "fst (find_optimal_slot session pid d t) = None"
  by (cases session) (simp_all add: find_optimal_slot_def slots_of_day_def)

lemma collect_alternatives_take:
  "length acc < 5 \<Longrightarrow>
   collect_alternatives pid acc rows =
     acc @ map (as_alternative pid) (take (5 - length acc) rows)"
proof (induction rows arbitrary: acc)
  case Nil
  show ?case by simp
next
  case (Cons s rows)
  show ?case
  proof (cases "5 \<le> Suc (length acc)")
    case True
    with Cons.prems have "length acc = 4" by simp
    then show ?thesis by (simp add: Let_def)
  next
    case False
    then have lt: "length (acc @ [as_alternative pid s]) < 5" by simp
    have "5 - length acc = Suc (5 - Suc (length acc))" using False by simp
    then show ?thesis
      using False Cons.IH [OF lt] by (simp add: Let_def)
  qed
qed

lemma find_alternative_slots_up:
  "find_alternative_slots (Inr db) pid d n =
     (map (as_alternative pid) (take 5 (window_query db pid d n)), [])"
  using collect_alternatives_take [of "[]" pid "window_query db pid d n"]
  by (simp add: find_alternative_slots_def)

lemma start_time_as_alternative: "start_time (as_alternative pid s) = start_time s"
  by (simp add: as_alternative_def)

lemma sorted_window_query: "sorted (map start_time (window_query db pid d n))"
  by (simp add: window_query_def)

lemma sorted_take_map:
  "sorted (map f xs) \<Longrightarrow> sorted (map f (take k xs))"
  by (metis sorted_wrt_take take_map)

lemma set_window_query:
  "set (window_query db pid d n) = {s \<in> set (time_slots db). in_window pid d n s}"
  by (simp add: window_query_def)

lemma alternatives_props:
  fixes db pid d
  defines "alts \<equiv> map (as_alternative pid) (take 5 (window_query db pid d 7))"
  shows "length alts \<le> 5"
    and "sorted (map start_time alts)"
    and "\<forall>a \<in> set alts. \<exists>s \<in> set (time_slots db). a = as_alternative pid s \<and> in_window pid d 7 s"
proof -
  show "length alts \<le> 5" by (simp add: alts_def)
  have "map start_time alts = map start_time (take 5 (window_query db pid d 7))"
    by (simp add: alts_def comp_def start_time_as_alternative)
  then show "sorted (map start_time alts)"
    using sorted_take_map [OF sorted_window_query] by simp
  show "\<forall>a \<in> set alts. \<exists>s \<in> set (time_slots db). a = as_alternative pid s \<and> in_window pid d 7 s"
  proof
    fix a assume "a \<in> set alts"
    then obtain s where s: "s \<in> set (take 5 (window_query db pid d 7))" and a: "a = as_alternative pid s"
      by (auto simp: alts_def)
    from s have "s \<in> set (window_query db pid d 7)" by (rule in_set_takeD)
    then show "\<exists>s \<in> set (time_slots db). a = as_alternative pid s \<and> in_window pid d 7 s"
      using a by (auto simp: set_window_query)
  qed
qed

lemma suggest_with_message:
  "message (fst (suggest_with optimal_slot printed session pid d)) \<noteq> error_message"
  by (simp add: suggest_with_def suggest_fallback_def Let_def error_message_def
      found_message_def preferred_time_message_def none_found_message_def
      split: option.splits prod.splits)

lemma suggest_with_none:
  "suggest_with None printed s2 pid d =
     (\<lparr>message = (if fst (find_alternative_slots s2 pid d 7) = [] then none_found_message
                    else preferred_time_message),
       available = False, slot = None,
       alternative_slots = Some (fst (find_alternative_slots s2 pid d 7))\<rparr>,
      printed @ snd (find_alternative_slots s2 pid d 7))"
  by (simp add: suggest_with_def suggest_fallback_def split: prod.splits)

lemma suggest_slots_fallback:
  "suggest_slots s1 s2 pid d t =
     suggest_with None (snd (find_optimal_slot s1 pid d t)) s2 pid d"
  using find_optimal_slot_never [of s1 pid d t]
  by (cases "find_optimal_slot s1 pid d t") (simp add: suggest_slots_def)

text \<open>
  The alternatives that \<open>suggest_slots\<close> returns with an open store: the first five,
  by ascending start, of the provider's available slots that start between 00:00 of the
  preferred date and 23:59:59.999999 of the seventh day after it.
\<close>

lemma suggest_slots_alternatives:
  "\<exists>alts. alternative_slots (fst (suggest_slots s1 (Inr db) pid d t)) = Some alts
     \<and> alts = map (as_alternative pid) (take 5 (window_query db pid d 7))
     \<and> length alts \<le> 5
     \<and> sorted (map start_time alts)
     \<and> (\<forall>a \<in> set alts. \<exists>s \<in> set (time_slots db).
           a = as_alternative pid s \<and> in_window pid d 7 s)"
  using alternatives_props [of pid db d]
  by (simp add: suggest_slots_fallback suggest_with_none find_alternative_slots_up)

lemma suggest_slots_window_example:
  "suggest_slots
     (Inr \<lparr>users = [], service_providers = [],
           time_slots = [\<lparr>start_time = datetime_of 2024 3 27 10 0,
                           end_time = datetime_of 2024 3 27 10 30, is_available = True,
                           ts_id = 7, provider_id = 1\<rparr>],
           appointments = []\<rparr>)
     (Inr \<lparr>users = [], service_providers = [],
           time_slots = [\<lparr>start_time = datetime_of 2024 3 27 10 0,
                           end_time = datetime_of 2024 3 27 10 30, is_available = True,
                           ts_id = 7, provider_id = 1\<rparr>],
           appointments = []\<rparr>)
     1 (days_from_civil 2024 3 20) ''09:00''
   = (\<lparr>message = preferred_time_message, available = False, slot = None,
       alternative_slots = Some [\<lparr>start_time = datetime_of 2024 3 27 10 0,
                                  end_time = datetime_of 2024 3 27 10 30,
                                  slot_id = 7, for_provider = 1\<rparr>]\<rparr>,
      [Log ''Error finding optimal slot'' AttributeError])
   \<and> combine (days_from_civil 2024 3 20 + 7) min_time \<le> datetime_of 2024 3 27 10 0"
  by (simp add: suggest_slots_fallback suggest_with_none find_optimal_slot_open
      find_alternative_slots_def window_query_def in_window_def as_alternative_def
      combine_def min_time_def max_time_def datetime_of_def days_from_civil_def
      us_per_day_def us_per_hour_def us_per_minute_def Let_def)

text \<open>
  C1. The provider has an available slot from 09:00 to 09:30 on the preferred date and
  the preferred time is 09:00. \<open>suggest_slots\<close> does not answer with
  \<open>available = True\<close> and that slot: the query of \<open>find_optimal_slot\<close> raises, the
  error is printed, and the slot comes back as an alternative under
  \<open>available = False\<close>. No call of \<open>suggest_slots\<close> answers \<open>available = True\<close>.
\<close>

theorem suggest_slots_exact_match_example:
  "suggest_slots
     (Inr \<lparr>users = [], service_providers = [],
           time_slots = [\<lparr>start_time = datetime_of 2024 3 20 9 0,
                           end_time = datetime_of 2024 3 20 9 30, is_available = True,
                           ts_id = 7, provider_id = 1\<rparr>],
           appointments = []\<rparr>)
     (Inr \<lparr>users = [], service_providers = [],
           time_slots = [\<lparr>start_time = datetime_of 2024 3 20 9 0,
                           end_time = datetime_of 2024 3 20 9 30, is_available = True,
                           ts_id = 7, provider_id = 1\<rparr>],
           appointments = []\<rparr>)
     1 (days_from_civil 2024 3 20) ''09:00''
   = (\<lparr>message = preferred_time_message, available = False, slot = None,
       alternative_slots = Some [\<lparr>start_time = datetime_of 2024 3 20 9 0,
                                  end_time = datetime_of 2024 3 20 9 30,
                                  slot_id = 7, for_provider = 1\<rparr>]\<rparr>,
      [Log ''Error finding optimal slot'' AttributeError])
   \<and> \<not> available (fst (suggest_slots s1 s2 pid d t))"
proof
  show "suggest_slots
     (Inr \<lparr>users = [], service_providers = [],
           time_slots = [\<lparr>start_time = datetime_of 2024 3 20 9 0,
                           end_time = datetime_of 2024 3 20 9 30, is_available = True,
                           ts_id = 7, provider_id = 1\<rparr>],
           appointments = []\<rparr>)
     (Inr \<lparr>users = [], service_providers = [],
           time_slots = [\<lparr>start_time = datetime_of 2024 3 20 9 0,
                           end_time = datetime_of 2024 3 20 9 30, is_available = True,
                           ts_id = 7, provider_id = 1\<rparr>],
           appointments = []\<rparr>)
     1 (days_from_civil 2024 3 20) ''09:00''
   = (\<lparr>message = preferred_time_message, available = False, slot = None,
       alternative_slots = Some [\<lparr>start_time = datetime_of 2024 3 20 9 0,
                                  end_time = datetime_of 2024 3 20 9 30,
                                  slot_id = 7, for_provider = 1\<rparr>]\<rparr>,
      [Log ''Error finding optimal slot'' AttributeError])"
    by (simp add: suggest_slots_fallback suggest_with_none find_optimal_slot_open
        find_alternative_slots_def window_query_def in_window_def as_alternative_def
        combine_def min_time_def max_time_def datetime_of_def days_from_civil_def
        us_per_day_def us_per_hour_def us_per_minute_def Let_def)
  show "\<not> available (fst (suggest_slots s1 s2 pid d t))"
    by (simp add: suggest_slots_fallback suggest_with_none)
qed

text \<open>
  C2. The provider has available slots at 09:00 and 09:30 on the preferred date and the
  preferred time is 09:10. \<open>find_optimal_slot\<close> scores neither slot: its query raises,
  it prints the error and returns \<open>None\<close>, so the slot at 09:00 is not returned with
  the score \<open>1 / (1 + 10/60)\<close>. \<open>rank_slots\<close>, for the same slot and preference, stores
  \<open>1/11\<close>: its distance is in minutes and is not divided by 60.
\<close>

theorem find_optimal_slot_exact_example:
  "find_optimal_slot
     (Inr \<lparr>users = [], service_providers = [],
           time_slots = [\<lparr>start_time = datetime_of 2024 3 20 9 0,
                           end_time = datetime_of 2024 3 20 9 30, is_available = True,
                           ts_id = 7, provider_id = 1\<rparr>,
                         \<lparr>start_time = datetime_of 2024 3 20 9 30,
                           end_time = datetime_of 2024 3 20 10 0, is_available = True,
                           ts_id = 8, provider_id = 1\<rparr>],
           appointments = []\<rparr>)
     1 (days_from_civil 2024 3 20) ''09:10''
   = (None, [Log ''Error finding optimal slot'' AttributeError])
   \<and> map score (fst (rank_slots
        [\<lparr>start_time = datetime_of 2024 3 20 9 0, end_time = datetime_of 2024 3 20 9 30,
          duration = 30, score = None, alternative_score = None\<rparr>]
        \<lparr>preferred_time = Some (clock_of 9 10)\<rparr>)) = [Some (1 / 11)]
   \<and> (1 :: rat) / 11 \<noteq> 1 / (1 + 10 / 60)"
  by (simp add: find_optimal_slot_open rank_slots_def Let_def set_score_def
      rank_time_diff_def datetime_of_def days_from_civil_def clock_of_def time_of_def
      hour_def minute_def us_per_day_def us_per_hour_def us_per_minute_def)

lemma band_score_values:
  "band_score ranges preferred_time_str slot_time = 1
   \<or> band_score ranges preferred_time_str slot_time = 1 / 2"
  by (simp add: band_score_def split: option.splits prod.splits)

text \<open>
  C6. An available slot at 10:00 on the preferred date and the preference \<open>morning\<close>:
  the query of line 116 raises \<open>AttributeError\<close>, \<open>find_optimal_slot\<close> prints the
  error and returns \<open>None\<close>, and the slot, which lies in the band, receives no score.
  For every input the function returns \<open>None\<close>: the scoring loop is never reached.
\<close>

theorem find_optimal_slot_band_example:
  "find_optimal_slot
     (Inr \<lparr>users = [], service_providers = [],
           time_slots = [\<lparr>start_time = datetime_of 2024 3 20 10 0,
                           end_time = datetime_of 2024 3 20 10 30, is_available = True,
                           ts_id = 7, provider_id = 1\<rparr>],
           appointments = []\<rparr>)
     1 (days_from_civil 2024 3 20) ''morning''
   = (None, [Log ''Error finding optimal slot'' AttributeError])
   \<and> fst (find_optimal_slot session pid d t) = None"
  by (simp add: find_optimal_slot_open find_optimal_slot_never)

text \<open>
  C7. \<open>suggest_slots\<close> returns a result for every input and never the message of its
  own handler. With no available slot of the provider in the search window the result is
  \<open>available = False\<close> with no alternatives and the message that none was found. A
  failure of a lookup is caught and printed inside that lookup, which then yields no
  slot, or no alternatives; when \<open>find_optimal_slot\<close> yields no slot the result is
  \<open>available = False\<close> with the alternatives that \<open>find_alternative_slots\<close> found
  and the message for no slot at the preferred time, or for none at all when there is no
  alternative; what was printed is what the two lookups printed.
\<close>

theorem suggest_slots_total:
  "message (fst (suggest_slots s1 s2 pid d t)) \<noteq> error_message
   \<and> (filter (in_window pid d 7) (time_slots db) = [] \<longrightarrow>
        fst (suggest_slots s1 (Inr db) pid d t) =
          \<lparr>message = none_found_message, available = False, slot = None,
            alternative_slots = Some []\<rparr>)
   \<and> (fst (find_optimal_slot s1 pid d t) = None \<longrightarrow>
        suggest_slots s1 s2 pid d t =
          (\<lparr>message = (if fst (find_alternative_slots s2 pid d 7) = []
                         then none_found_message else preferred_time_message),
            available = False, slot = None,
            alternative_slots = Some (fst (find_alternative_slots s2 pid d 7))\<rparr>,
           snd (find_optimal_slot s1 pid d t) @ snd (find_alternative_slots s2 pid d 7)))
   \<and> find_optimal_slot (Inl e) pid d t = (None, [Log ''Error finding optimal slot'' e])
   \<and> find_alternative_slots (Inl e) pid d 7 =
        ([], [Log ''Error finding alternative slots'' e])
   \<and> find_alternative_slots (Inr db) pid d 7 =
        (map (as_alternative pid) (take 5 (window_query db pid d 7)), [])"
proof (intro conjI impI)
  show "message (fst (suggest_slots s1 s2 pid d t)) \<noteq> error_message"
    using suggest_with_message by (simp add: suggest_slots_def split: prod.splits)
next
  assume "filter (in_window pid d 7) (time_slots db) = []"
  then show "fst (suggest_slots s1 (Inr db) pid d t) =
          \<lparr>message = none_found_message, available = False, slot = None,
            alternative_slots = Some []\<rparr>"
    by (simp add: suggest_slots_fallback suggest_with_none find_alternative_slots_up
        window_query_def)
next
  assume "fst (find_optimal_slot s1 pid d t) = None"
  then show "suggest_slots s1 s2 pid d t =
          (\<lparr>message = (if fst (find_alternative_slots s2 pid d 7) = []
                         then none_found_message else preferred_time_message),
            available = False, slot = None,
            alternative_slots = Some (fst (find_alternative_slots s2 pid d 7))\<rparr>,
           snd (find_optimal_slot s1 pid d t) @ snd (find_alternative_slots s2 pid d 7))"
    by (cases "find_optimal_slot s1 pid d t")
       (simp add: suggest_slots_def suggest_with_none)
next
  show "find_optimal_slot (Inl e) pid d t = (None, [Log ''Error finding optimal slot'' e])"
    by (simp add: find_optimal_slot_def)
next
  show "find_alternative_slots (Inl e) pid d 7 =
        ([], [Log ''Error finding alternative slots'' e])"
    by (simp add: find_alternative_slots_def)
next
  show "find_alternative_slots (Inr db) pid d 7 =
        (map (as_alternative pid) (take 5 (window_query db pid d 7)), [])"
    by (rule find_alternative_slots_up)
qed

theorem suggest_slots_total_witness:
  "suggest_slots
     (Inr \<lparr>users = [], service_providers = [],
           time_slots = [\<lparr>start_time = datetime_of 2024 3 20 10 0,
                           end_time = datetime_of 2024 3 20 10 30, is_available = True,
                           ts_id = 7, provider_id = 1\<rparr>],
           appointments = []\<rparr>)
     (Inl StoreError) 1 (days_from_civil 2024 3 20) ''morning''
   = (\<lparr>message = none_found_message, available = False, slot = None,
       alternative_slots = Some []\<rparr>,
      [Log ''Error finding optimal slot'' AttributeError,
       Log ''Error finding alternative slots'' StoreError])
   \<and> fst (suggest_slots (Inl StoreError)
        (Inr \<lparr>users = [], service_providers = [], time_slots = [], appointments = []\<rparr>)
        1 (days_from_civil 2024 3 20) ''morning'')
     = \<lparr>message = none_found_message, available = False, slot = None,
        alternative_slots = Some []\<rparr>"
proof -
  let ?db = "\<lparr>users = [], service_providers = [],
           time_slots = [\<lparr>start_time = datetime_of 2024 3 20 10 0,
                           end_time = datetime_of 2024 3 20 10 30, is_available = True,
                           ts_id = 7, provider_id = 1\<rparr>],
           appointments = []\<rparr>"
  let ?empty = "\<lparr>users = [], service_providers = [], time_slots = [], appointments = []\<rparr>"
  let ?d = "days_from_civil 2024 3 20"
  have none: "fst (find_optimal_slot (Inr ?db) 1 ?d ''morning'') = None"
    by (simp add: find_optimal_slot_def slots_of_day_def)
  have printed: "snd (find_optimal_slot (Inr ?db) 1 ?d ''morning'')
                 = [Log ''Error finding optimal slot'' AttributeError]"
    by (simp add: find_optimal_slot_def slots_of_day_def)
  note t = suggest_slots_total [of "Inr ?db" "Inl StoreError" 1 ?d "''morning''" ?empty StoreError]
  have alt: "find_alternative_slots (Inl StoreError) 1 ?d 7 =
               ([], [Log ''Error finding alternative slots'' StoreError])"
    using t by blast
  have "suggest_slots (Inr ?db) (Inl StoreError) 1 ?d ''morning'' =
          (\<lparr>message = (if fst (find_alternative_slots (Inl StoreError) 1 ?d 7) = []
                         then none_found_message else preferred_time_message),
            available = False, slot = None,
            alternative_slots = Some (fst (find_alternative_slots (Inl StoreError) 1 ?d 7))\<rparr>,
           snd (find_optimal_slot (Inr ?db) 1 ?d ''morning'')
           @ snd (find_alternative_slots (Inl StoreError) 1 ?d 7))"
    using t none by blast
  then have 1: "suggest_slots (Inr ?db) (Inl StoreError) 1 ?d ''morning''
      = (\<lparr>message = none_found_message, available = False, slot = None,
          alternative_slots = Some []\<rparr>,
         [Log ''Error finding optimal slot'' AttributeError,
          Log ''Error finding alternative slots'' StoreError])"
    unfolding alt printed by simp
  have "filter (in_window 1 ?d 7) (time_slots ?empty) = []" by simp
  then have 2: "fst (suggest_slots (Inl StoreError) (Inr ?empty) 1 ?d ''morning'')
     = \<lparr>message = none_found_message, available = False, slot = None,
        alternative_slots = Some []\<rparr>"
    using suggest_slots_total [of "Inl StoreError" "Inr ?empty" 1 ?d "''morning''" ?empty
        StoreError] by blast
  from 1 2 show ?thesis by blast
qed

text \<open>
  Against C7 as stated: the lookup of the optimal slot fails and the failure is printed,
  and the message of the result is the one for no slot at the preferred time, not the one
  that reports an error.
\<close>

theorem suggest_slots_error_message_counterexample:
  "suggest_slots
     (Inr \<lparr>users = [], service_providers = [],
           time_slots = [\<lparr>start_time = datetime_of 2024 3 20 10 0,
                           end_time = datetime_of 2024 3 20 10 30, is_available = True,
                           ts_id = 7, provider_id = 1\<rparr>],
           appointments = []\<rparr>)
     (Inr \<lparr>users = [], service_providers = [],
           time_slots = [\<lparr>start_time = datetime_of 2024 3 20 10 0,
                           end_time = datetime_of 2024 3 20 10 30, is_available = True,
                           ts_id = 7, provider_id = 1\<rparr>],
           appointments = []\<rparr>)
     1 (days_from_civil 2024 3 20) ''morning''
   = (\<lparr>message = preferred_time_message, available = False, slot = None,
       alternative_slots = Some [\<lparr>start_time = datetime_of 2024 3 20 10 0,
                                  end_time = datetime_of 2024 3 20 10 30,
                                  slot_id = 7, for_provider = 1\<rparr>]\<rparr>,
      [Log ''Error finding optimal slot'' AttributeError])
   \<and> preferred_time_message \<noteq> error_message"
  by (simp add: suggest_slots_fallback suggest_with_none find_optimal_slot_open
      find_alternative_slots_def window_query_def in_window_def as_alternative_def
      combine_def min_time_def max_time_def datetime_of_def days_from_civil_def
      us_per_day_def us_per_hour_def us_per_minute_def Let_def
      preferred_time_message_def error_message_def)

section \<open>Properties of booking\<close>

lemma get_or_create_user_frame:
  "get_or_create_user db0 un ue = (db, u) \<Longrightarrow>
   time_slots db = time_slots db0 \<and> appointments db = appointments db0
   \<and> service_providers db = service_providers db0 \<and> u_email u = ue \<and> u \<in> set (users db)"
  by (auto simp: get_or_create_user_def Let_def find_Some_iff split: option.splits)

lemma mark_booked_update:
  "find (\<lambda>s. ts_id s = sid \<and> is_available s) rows = Some row \<Longrightarrow>
   \<exists>i < length rows. rows ! i = row \<and> ts_id row = sid \<and> is_available row
      \<and> mark_booked sid rows = rows[i := row\<lparr>is_available := False\<rparr>]"
proof (induction rows)
  case Nil
  then show ?case by simp
next
  case (Cons s rows)
  show ?case
  proof (cases "ts_id s = sid \<and> is_available s")
    case True
    with Cons.prems have "s = row" by simp
    with True have "0 < length (s # rows) \<and> (s # rows) ! 0 = row \<and> ts_id row = sid
        \<and> is_available row
        \<and> mark_booked sid (s # rows) = (s # rows)[0 := row\<lparr>is_available := False\<rparr>]"
      by simp
    then show ?thesis by blast
  next
    case False
    with Cons.prems have "find (\<lambda>s. ts_id s = sid \<and> is_available s) rows = Some row" by simp
    from Cons.IH [OF this] obtain i where i: "i < length rows" "rows ! i = row"
      "ts_id row = sid" "is_available row"
      "mark_booked sid rows = rows[i := row\<lparr>is_available := False\<rparr>]" by blast
    with False have "Suc i < length (s # rows) \<and> (s # rows) ! Suc i = row \<and> ts_id row = sid
        \<and> is_available row
        \<and> mark_booked sid (s # rows) = (s # rows)[Suc i := row\<lparr>is_available := False\<rparr>]"
      by auto
    then show ?thesis by blast
  qed
qed

text \<open>
  C3. \<open>book_appointment\<close> looks the slot up again when it books. If no available slot
  has the given \<open>id\<close>, it returns \<open>success = False\<close> with the message that the slot is
  no longer available, and the appointments and the slots of the store are as before.
  If it returns \<open>success = True\<close>, the store holds one more appointment, for the user
  with the given email and the start of that slot, the slot's row has
  \<open>is_available = False\<close>, and the details are the provider's name and the formatted
  date and time of the slot; this happens whenever the slot and its provider exist. A
  failing store gives \<open>success = False\<close> with the error in the message. In each case the
  outcome is a result dictionary.
\<close>

theorem book_appointment_result:
  "(find (\<lambda>s. ts_id s = sid \<and> is_available s) (time_slots db0) = None \<longrightarrow>
      (\<exists>db. book_appointment (Inr db0) un ue pid sid =
           (Inr db, \<lparr>message = Msg ''Selected slot is no longer available'',
                     success = False, details = None\<rparr>, [])
         \<and> appointments db = appointments db0 \<and> time_slots db = time_slots db0))
   \<and> (success (fst (snd (book_appointment (Inr db0) un ue pid sid))) \<longrightarrow>
      (\<exists>db row p u i.
          find (\<lambda>s. ts_id s = sid \<and> is_available s) (time_slots db0) = Some row
        \<and> find (\<lambda>p. sp_id p = provider_id row) (service_providers db0) = Some p
        \<and> fst (book_appointment (Inr db0) un ue pid sid) = Inr db
        \<and> u_email u = ue \<and> u \<in> set (users db)
        \<and> appointments db = appointments db0 @
             [\<lparr>a_id = next_id (map a_id (appointments db0)), a_user_id = u_id u,
               a_provider_id = pid, a_datetime = start_time row,
               duration_minutes = 30, status = ''booked''\<rparr>]
        \<and> i < length (time_slots db0) \<and> time_slots db0 ! i = row
        \<and> time_slots db = (time_slots db0)[i := row\<lparr>is_available := False\<rparr>]
        \<and> fst (snd (book_appointment (Inr db0) un ue pid sid)) =
             \<lparr>message = Msg ''Appointment booked successfully!'', success = True,
               details = Some \<lparr>booked_date = strftime_date (start_time row),
                               booked_time = strftime_time (start_time row),
                               booked_provider = sp_name p\<rparr>\<rparr>))
   \<and> (find (\<lambda>s. ts_id s = sid \<and> is_available s) (time_slots db0) = Some row
        \<and> find (\<lambda>p. sp_id p = provider_id row) (service_providers db0) = Some p \<longrightarrow>
        success (fst (snd (book_appointment (Inr db0) un ue pid sid))))
   \<and> book_appointment (Inl e) un ue pid sid =
        (Inl e, \<lparr>message = MsgExn ''Error booking appointment: '' e, success = False,
                  details = None\<rparr>, [Log ''Error booking appointment'' e])"
proof -
  obtain db u where gu: "get_or_create_user db0 un ue = (db, u)"
    by (cases "get_or_create_user db0 un ue") blast
  note fr = get_or_create_user_frame [OF gu]
  have c1: "find (\<lambda>s. ts_id s = sid \<and> is_available s) (time_slots db0) = None \<longrightarrow>
      (\<exists>db. book_appointment (Inr db0) un ue pid sid =
           (Inr db, \<lparr>message = Msg ''Selected slot is no longer available'',
                     success = False, details = None\<rparr>, [])
         \<and> appointments db = appointments db0 \<and> time_slots db = time_slots db0)"
    using gu fr by (simp add: book_appointment_def)
  have c2: "success (fst (snd (book_appointment (Inr db0) un ue pid sid))) \<longrightarrow>
      (\<exists>db row p u i.
          find (\<lambda>s. ts_id s = sid \<and> is_available s) (time_slots db0) = Some row
        \<and> find (\<lambda>p. sp_id p = provider_id row) (service_providers db0) = Some p
        \<and> fst (book_appointment (Inr db0) un ue pid sid) = Inr db
        \<and> u_email u = ue \<and> u \<in> set (users db)
        \<and> appointments db = appointments db0 @
             [\<lparr>a_id = next_id (map a_id (appointments db0)), a_user_id = u_id u,
               a_provider_id = pid, a_datetime = start_time row,
               duration_minutes = 30, status = ''booked''\<rparr>]
        \<and> i < length (time_slots db0) \<and> time_slots db0 ! i = row
        \<and> time_slots db = (time_slots db0)[i := row\<lparr>is_available := False\<rparr>]
        \<and> fst (snd (book_appointment (Inr db0) un ue pid sid)) =
             \<lparr>message = Msg ''Appointment booked successfully!'', success = True,
               details = Some \<lparr>booked_date = strftime_date (start_time row),
                               booked_time = strftime_time (start_time row),
                               booked_provider = sp_name p\<rparr>\<rparr>)"
  proof
    assume ok: "success (fst (snd (book_appointment (Inr db0) un ue pid sid)))"
    then obtain row where row: "find (\<lambda>s. ts_id s = sid \<and> is_available s) (time_slots db0) = Some row"
      using gu fr by (cases "find (\<lambda>s. ts_id s = sid \<and> is_available s) (time_slots db0)")
        (simp_all add: book_appointment_def)
    from ok row obtain p where p: "find (\<lambda>p. sp_id p = provider_id row) (service_providers db0) = Some p"
      using gu fr by (cases "find (\<lambda>p. sp_id p = provider_id row) (service_providers db0)")
        (simp_all add: book_appointment_def Let_def)
    from mark_booked_update [OF row] obtain i where i: "i < length (time_slots db0)"
      "time_slots db0 ! i = row"
      "mark_booked sid (time_slots db0) = (time_slots db0)[i := row\<lparr>is_available := False\<rparr>]"
      by blast
    let ?db' = "db\<lparr>appointments := appointments db @
             [\<lparr>a_id = next_id (map a_id (appointments db)), a_user_id = u_id u,
               a_provider_id = pid, a_datetime = start_time row,
               duration_minutes = 30, status = ''booked''\<rparr>],
             time_slots := mark_booked sid (time_slots db)\<rparr>"
    have res: "book_appointment (Inr db0) un ue pid sid =
        (Inr ?db', \<lparr>message = Msg ''Appointment booked successfully!'', success = True,
               details = Some \<lparr>booked_date = strftime_date (start_time row),
                               booked_time = strftime_time (start_time row),
                               booked_provider = sp_name p\<rparr>\<rparr>, [])"
      using gu fr row p by (simp add: book_appointment_def Let_def)
    have "u \<in> set (users ?db')" using fr by simp
    then show "\<exists>db row p u i.
          find (\<lambda>s. ts_id s = sid \<and> is_available s) (time_slots db0) = Some row
        \<and> find (\<lambda>p. sp_id p = provider_id row) (service_providers db0) = Some p
        \<and> fst (book_appointment (Inr db0) un ue pid sid) = Inr db
        \<and> u_email u = ue \<and> u \<in> set (users db)
        \<and> appointments db = appointments db0 @
             [\<lparr>a_id = next_id (map a_id (appointments db0)), a_user_id = u_id u,
               a_provider_id = pid, a_datetime = start_time row,
               duration_minutes = 30, status = ''booked''\<rparr>]
        \<and> i < length (time_slots db0) \<and> time_slots db0 ! i = row
        \<and> time_slots db = (time_slots db0)[i := row\<lparr>is_available := False\<rparr>]
        \<and> fst (snd (book_appointment (Inr db0) un ue pid sid)) =
             \<lparr>message = Msg ''Appointment booked successfully!'', success = True,
               details = Some \<lparr>booked_date = strftime_date (start_time row),
                               booked_time = strftime_time (start_time row),
                               booked_provider = sp_name p\<rparr>\<rparr>"
      using row p i fr res
      by (intro exI [of _ ?db'] exI [of _ row] exI [of _ p] exI [of _ u] exI [of _ i]) simp
  qed
  have c3: "find (\<lambda>s. ts_id s = sid \<and> is_available s) (time_slots db0) = Some row
        \<and> find (\<lambda>p. sp_id p = provider_id row) (service_providers db0) = Some p \<longrightarrow>
        success (fst (snd (book_appointment (Inr db0) un ue pid sid)))"
    using gu fr by (simp add: book_appointment_def Let_def)
  have c4: "book_appointment (Inl e) un ue pid sid =
        (Inl e, \<lparr>message = MsgExn ''Error booking appointment: '' e, success = False,
                  details = None\<rparr>, [Log ''Error booking appointment'' e])"
    by (simp add: book_appointment_def)
  from c1 c2 c3 c4 show ?thesis by blast
qed

theorem book_appointment_result_witness:
  "fst (snd (book_appointment
      (Inr \<lparr>users = [],
            service_providers = [\<lparr>sp_id = 1, sp_name = ''Dr. Smith'',
                                   service_type = ''General''\<rparr>],
            time_slots = [\<lparr>start_time = datetime_of 2024 3 20 10 0,
                            end_time = datetime_of 2024 3 20 10 30, is_available = True,
                            ts_id = 7, provider_id = 1\<rparr>],
            appointments = []\<rparr>)
      ''Ann'' ''ann@example.com'' 1 7))
   = \<lparr>message = Msg ''Appointment booked successfully!'', success = True,
      details = Some \<lparr>booked_date = ''2024-03-20'', booked_time = ''10:00 AM'',
                      booked_provider = ''Dr. Smith''\<rparr>\<rparr>
   \<and> (\<exists>db. book_appointment
      (Inr \<lparr>users = [],
            service_providers = [\<lparr>sp_id = 1, sp_name = ''Dr. Smith'',
                                   service_type = ''General''\<rparr>],
            time_slots = [\<lparr>start_time = datetime_of 2024 3 20 10 0,
                            end_time = datetime_of 2024 3 20 10 30, is_available = True,
                            ts_id = 7, provider_id = 1\<rparr>],
            appointments = []\<rparr>)
      ''Ann'' ''ann@example.com'' 1 8
     = (Inr db, \<lparr>message = Msg ''Selected slot is no longer available'',
                  success = False, details = None\<rparr>, [])
     \<and> appointments db = [])"
proof -
  let ?row = "\<lparr>start_time = datetime_of 2024 3 20 10 0,
                end_time = datetime_of 2024 3 20 10 30, is_available = True,
                ts_id = 7, provider_id = 1\<rparr>"
  let ?p = "\<lparr>sp_id = 1, sp_name = ''Dr. Smith'', service_type = ''General''\<rparr>"
  let ?db = "\<lparr>users = [], service_providers = [?p], time_slots = [?row],
               appointments = []\<rparr>"
  let ?r = "fst (snd (book_appointment (Inr ?db) ''Ann'' ''ann@example.com'' 1 7))"
  note t = book_appointment_result [of 7 ?db "''Ann''" "''ann@example.com''" 1 ?row ?p StoreError]
  have f: "find (\<lambda>s. ts_id s = 7 \<and> is_available s) (time_slots ?db) = Some ?row" by simp
  have g: "find (\<lambda>p. sp_id p = provider_id ?row) (service_providers ?db) = Some ?p" by simp
  have ok: "success ?r" using t f g by blast
  then obtain row p where
    a: "find (\<lambda>s. ts_id s = 7 \<and> is_available s) (time_slots ?db) = Some row" and
    b: "find (\<lambda>p. sp_id p = provider_id row) (service_providers ?db) = Some p" and
    c: "?r = \<lparr>message = Msg ''Appointment booked successfully!'', success = True,
            details = Some \<lparr>booked_date = strftime_date (start_time row),
                            booked_time = strftime_time (start_time row),
                            booked_provider = sp_name p\<rparr>\<rparr>"
    using t by blast
  from a f have row: "row = ?row" by (simp only: option.inject)
  from b g have p: "p = ?p" unfolding row by (simp only: option.inject)
  have r: "?r = \<lparr>message = Msg ''Appointment booked successfully!'', success = True,
            details = Some \<lparr>booked_date = strftime_date (datetime_of 2024 3 20 10 0),
                            booked_time = strftime_time (datetime_of 2024 3 20 10 0),
                            booked_provider = ''Dr. Smith''\<rparr>\<rparr>"
    using c unfolding row p by simp
  have d: "strftime_date (datetime_of 2024 3 20 10 0) = ''2024-03-20''" by code_simp
  have c: "strftime_time (datetime_of 2024 3 20 10 0) = ''10:00 AM''" by code_simp
  have none: "find (\<lambda>s. ts_id s = 8 \<and> is_available s) (time_slots ?db) = None" by simp
  have "\<exists>db. book_appointment (Inr ?db) ''Ann'' ''ann@example.com'' 1 8
            = (Inr db, \<lparr>message = Msg ''Selected slot is no longer available'',
                         success = False, details = None\<rparr>, [])
          \<and> appointments db = appointments ?db \<and> time_slots db = time_slots ?db"
    using book_appointment_result [of 8 ?db "''Ann''" "''ann@example.com''" 1 ?row ?p StoreError]
      none by blast
  then have missing: "\<exists>db. book_appointment (Inr ?db) ''Ann'' ''ann@example.com'' 1 8
            = (Inr db, \<lparr>message = Msg ''Selected slot is no longer available'',
                         success = False, details = None\<rparr>, [])
          \<and> appointments db = []"
    by auto
  have "?r = \<lparr>message = Msg ''Appointment booked successfully!'', success = True,
      details = Some \<lparr>booked_date = ''2024-03-20'', booked_time = ''10:00 AM'',
                      booked_provider = ''Dr. Smith''\<rparr>\<rparr>"
    unfolding r d c ..
  with missing show ?thesis by blast
qed

section \<open>Properties of request interpretation\<close>

lemma extract_without_with:
  "\<not> py_in ''with'' text \<Longrightarrow> extract_appointment_details today text = Failure provider_prompt"
  by (simp add: extract_appointment_details_def extract_provider_def)

text \<open>
  C9. The utterance of the program's own example, in lower case as the recogniser
  delivers it, with a date and a time of day: the provider that is extracted is not
  \<open>Dr. Smith\<close> but \<open>Dr.\<close> followed by the rest of the utterance after \<open>dr\<close>, the
  full stop included. An utterance that names the provider after \<open>for\<close> only is
  answered with the prompt for a provider.
\<close>

theorem extract_provider_example:
  "extract_appointment_details today ''book an appointment with dr. smith tomorrow morning''
     = Extracted ''Dr. . smith tomorrow morning'' (today + 1) ''9 AM''
   \<and> extract_appointment_details today ''book an appointment with dr smith tomorrow morning''
     = Extracted ''Dr. smith tomorrow morning'' (today + 1) ''9 AM''
   \<and> extract_appointment_details today ''book an appointment for dr. smith tomorrow morning''
     = Failure provider_prompt"
  by (simp add: extract_appointment_details_def extract_provider_def split_sep_def item_def
      split_ws_def is_space_def strip_def date_keywords_def time_mappings_def)

end
